theory Spec2Isabelle
  imports Main
begin

section \<open>The relational store\<close>

text \<open>
  The tables of \<^verbatim>\<open>seeds/carpinteria.sql\<close> that the sale and invoice code reads and
  writes. A table is the list of its rows, in the order in which a query without
  \<^verbatim>\<open>ORDER BY\<close> returns them. Amounts (\<^verbatim>\<open>DECIMAL(10, 2)\<close>) are integers counted
  in hundredths, quantities (\<^verbatim>\<open>INT\<close>) are integers; the range limits of the
  columns are not part of the model. Each \<^verbatim>\<open>AUTO_INCREMENT\<close> key has its counter
  in the store.
\<close>

datatype estado_producto = DISPONIBLE | AGOTADO | DESCONTINUADO

datatype estado_venta = COMPLETADA | CANCELADA

datatype estado_factura = EMITIDA | PAGADA | ANULADA

record producto =
  id_producto :: nat
  nombre_producto :: string
  precio :: int
  stock :: int
  estado :: estado_producto

record carrito =
  id_carrito :: nat
  c_id_usuario :: nat

record producto_carrito =
  pc_id_carrito :: nat
  pc_id_producto :: nat
  pc_cantidad :: int

record venta =
  id_venta :: nat
  v_id_usuario :: nat
  total_venta :: int
  v_estado_venta :: estado_venta

record detalle_venta =
  id_detalle_venta :: nat
  dv_id_venta :: nat
  dv_id_producto :: nat
  dv_cantidad :: int
  precio_unitario :: int
  subtotal_linea :: int

record factura =
  id_factura :: nat
  f_id_venta :: nat
  numero_factura :: string
  monto_total :: int
  f_estado :: estado_factura

record db =
  Productos :: "producto list"
  Carritos :: "carrito list"
  Productos_Carrito :: "producto_carrito list"
  Ventas :: "venta list"
  Detalles_Venta :: "detalle_venta list"
  Facturas :: "factura list"
  sig_id_venta :: nat
  sig_id_detalle_venta :: nat
  sig_id_factura :: nat

text \<open>The messages of the \<^verbatim>\<open>Error\<close> values the models throw, and the duplicate-key
  error of the store for the \<^verbatim>\<open>UNIQUE\<close> columns of \<^verbatim>\<open>Facturas\<close>.\<close>

datatype error =
    CarritoNoEncontrado
  | CarritoVacio
  | StockInsuficiente string int int
  | VentaNoCancelable
  | VentaNoCompletada
  | VentaYaFacturada
  | FacturaNoEncontrada
  | FacturaNoAnulable
  | FacturaNoPagable
  | EntradaDuplicada

text \<open>
  Every model method opens a transaction, runs its statements and commits; the
  \<^verbatim>\<open>catch\<close> block rolls back and rethrows. The body of the \<^verbatim>\<open>try\<close> is a function
  from the store to an error or the new store with the result; \<open>transaccion\<close> gives the
  store the other connections see afterwards, and what the caller receives. A rollback
  restores the counters of the \<^verbatim>\<open>AUTO_INCREMENT\<close> keys with the rows; the engine may
  instead skip the id of a failed insert, which changes no row.
\<close>

definition transaccion :: "(db \<Rightarrow> error + db \<times> 'a) \<Rightarrow> db \<Rightarrow> db \<times> (error + 'a)" where
  "transaccion cuerpo d =
     (case cuerpo d of
        Inl e \<Rightarrow> (d, Inl e)
      | Inr (d', r) \<Rightarrow> (d', Inr r))"

section \<open>Strings of the invoice number\<close>

text \<open>
  \<^verbatim>\<open>String(n)\<close> of a natural number, \<^verbatim>\<open>padStart\<close>, \<^verbatim>\<open>slice(-4)\<close> and \<^verbatim>\<open>parseInt\<close>.
  \<open>parseInt\<close> reads the leading decimal digits and is \<open>None\<close> (NaN) when there are
  none; signs, leading blanks and the hexadecimal prefix are left out, the invoice
  numbers being strings of digits. A number that may be NaN is a \<open>nat option\<close>.
\<close>

text \<open>The character of a decimal digit; it is asked for numbers below ten only.\<close>

definition digito :: "nat \<Rightarrow> char" where
  "digito n = ''0123456789'' ! n"

fun String_nat :: "nat \<Rightarrow> string" where
  "String_nat n = (if n < 10 then [digito n] else String_nat (n div 10) @ [digito (n mod 10)])"

declare String_nat.simps [simp del]

definition String_num :: "nat option \<Rightarrow> string" where
  "String_num x = (case x of None \<Rightarrow> ''NaN'' | Some n \<Rightarrow> String_nat n)"

definition padStart :: "nat \<Rightarrow> char \<Rightarrow> string \<Rightarrow> string" where
  "padStart n c s = replicate (n - length s) c @ s"

definition slice_ultimos :: "nat \<Rightarrow> string \<Rightarrow> string" where
  "slice_ultimos n s = drop (length s - n) s"

definition es_digito :: "char \<Rightarrow> bool" where
  "es_digito c = (c \<in> set ''0123456789'')"

definition valor_digito :: "char \<Rightarrow> nat" where
  "valor_digito c = of_char c - 48"

definition parseInt :: "string \<Rightarrow> nat option" where
  "parseInt s =
     (let ds = takeWhile es_digito s
      in if ds = [] then None
         else Some (foldl (\<lambda>a c. 10 * a + valor_digito c) 0 ds))"

text \<open>\<^verbatim>\<open>numero_factura LIKE 'prefijo%'\<close>, and the order of \<^verbatim>\<open>ORDER BY numero_factura\<close>
  on strings of digits: character by character, a proper prefix first.\<close>

definition como_prefijo :: "string \<Rightarrow> string \<Rightarrow> bool" where
  "como_prefijo prefijo s = (take (length prefijo) s = prefijo)"

fun cadena_menor :: "string \<Rightarrow> string \<Rightarrow> bool" where
  "cadena_menor [] [] = False"
| "cadena_menor [] (y # ys) = True"
| "cadena_menor (x # xs) [] = False"
| "cadena_menor (x # xs) (y # ys) =
     ((of_char x :: nat) < of_char y \<or> (x = y \<and> cadena_menor xs ys))"

text \<open>\<^verbatim>\<open>ORDER BY ... DESC LIMIT 1\<close>: the greatest string of the rows, none for no row.\<close>

fun primera_desc :: "string list \<Rightarrow> string option" where
  "primera_desc [] = None"
| "primera_desc (s # ss) =
     (case primera_desc ss of
        None \<Rightarrow> Some s
      | Some m \<Rightarrow> if cadena_menor s m then Some m else Some s)"

section \<open>Factura.generarNumeroFactura\<close>

text \<open>The year and the month (1 to 12) are what \<^verbatim>\<open>new Date()\<close> gives.\<close>

definition prefijo_periodo :: "nat \<Rightarrow> nat \<Rightarrow> string" where
  "prefijo_periodo anio mes = String_nat anio @ padStart 2 CHR ''0'' (String_nat mes)"

definition generarNumeroFactura :: "db \<Rightarrow> nat \<Rightarrow> nat \<Rightarrow> string" where
  "generarNumeroFactura d anio mes =
     (let prefijo = prefijo_periodo anio mes;
          ultimaFactura =
            primera_desc (filter (como_prefijo prefijo) (map numero_factura (Facturas d)));
          numeroSecuencial =
            (case ultimaFactura of
               None \<Rightarrow> Some 1
             | Some ultimoNumero \<Rightarrow>
                 map_option (\<lambda>ultimoSecuencial. ultimoSecuencial + 1)
                   (parseInt (slice_ultimos 4 ultimoNumero)))
      in prefijo @ padStart 4 CHR ''0'' (String_num numeroSecuencial))"

section \<open>Venta.procesarVentaDesdeCarrito\<close>

text \<open>A row of the query that joins the cart lines with their products.\<close>

record fila_carrito =
  r_id_producto :: nat
  r_cantidad :: int
  r_nombre_producto :: string
  r_precio :: int
  r_stock :: int
  r_subtotal :: int

text \<open>
  \<^verbatim>\<open>FROM Productos_Carrito pc INNER JOIN Productos p ON pc.id_producto = p.id_producto
  WHERE pc.id_carrito = ? AND p.estado = 'DISPONIBLE'\<close>, the rows in the order of the
  cart lines.
\<close>

definition fila_de :: "producto_carrito \<Rightarrow> producto \<Rightarrow> fila_carrito" where
  "fila_de pc p =
     \<lparr>r_id_producto = pc_id_producto pc, r_cantidad = pc_cantidad pc,
      r_nombre_producto = nombre_producto p, r_precio = precio p, r_stock = stock p,
      r_subtotal = pc_cantidad pc * precio p\<rparr>"

definition seleccionar_productosCarrito :: "db \<Rightarrow> nat \<Rightarrow> fila_carrito list" where
  "seleccionar_productosCarrito d idCarrito =
     concat (map (\<lambda>pc. map (fila_de pc)
                    (filter (\<lambda>p. id_producto p = pc_id_producto pc \<and> estado p = DISPONIBLE)
                       (Productos d)))
               (filter (\<lambda>pc. pc_id_carrito pc = idCarrito) (Productos_Carrito d)))"

text \<open>Step 3: the loop throws at the first line that asks for more than the stock.\<close>

fun validar_stock :: "fila_carrito list \<Rightarrow> error option" where
  "validar_stock [] = None"
| "validar_stock (producto # resto) =
     (if r_cantidad producto > r_stock producto
      then Some (StockInsuficiente (r_nombre_producto producto) (r_stock producto)
                   (r_cantidad producto))
      else validar_stock resto)"

definition insertar_venta :: "nat \<Rightarrow> int \<Rightarrow> db \<Rightarrow> db" where
  "insertar_venta idUsuario totalVenta d =
     d\<lparr>Ventas := Ventas d @
          [\<lparr>id_venta = sig_id_venta d, v_id_usuario = idUsuario,
            total_venta = totalVenta, v_estado_venta = COMPLETADA\<rparr>],
       sig_id_venta := sig_id_venta d + 1\<rparr>"

definition insertar_detalle :: "nat \<Rightarrow> fila_carrito \<Rightarrow> db \<Rightarrow> db" where
  "insertar_detalle idVenta producto d =
     d\<lparr>Detalles_Venta := Detalles_Venta d @
          [\<lparr>id_detalle_venta = sig_id_detalle_venta d, dv_id_venta = idVenta,
            dv_id_producto = r_id_producto producto, dv_cantidad = r_cantidad producto,
            precio_unitario = r_precio producto, subtotal_linea = r_subtotal producto\<rparr>],
       sig_id_detalle_venta := sig_id_detalle_venta d + 1\<rparr>"

text \<open>
  \<^verbatim>\<open>UPDATE Productos SET stock = stock - ?, estado = CASE WHEN stock - ? <= 0 THEN
  'AGOTADO' ELSE estado END WHERE id_producto = ?\<close>. MySQL evaluates the assignments
  of a single-table \<^verbatim>\<open>UPDATE\<close> from left to right, so the \<^verbatim>\<open>stock\<close> of the second
  assignment is the value the first one has just stored.
\<close>

definition descontar_producto :: "int \<Rightarrow> producto \<Rightarrow> producto" where
  "descontar_producto cantidad p =
     (let p1 = p\<lparr>stock := stock p - cantidad\<rparr>
      in p1\<lparr>estado := (if stock p1 - cantidad \<le> 0 then AGOTADO else estado p1)\<rparr>)"

definition descontar_stock :: "nat \<Rightarrow> int \<Rightarrow> db \<Rightarrow> db" where
  "descontar_stock idProducto cantidad d =
     d\<lparr>Productos :=
          map (\<lambda>p. if id_producto p = idProducto then descontar_producto cantidad p else p)
            (Productos d)\<rparr>"

text \<open>Steps 6 and 7: for each cart row, the sale line and then the stock update.\<close>

fun registrar_detalles :: "nat \<Rightarrow> fila_carrito list \<Rightarrow> db \<Rightarrow> db" where
  "registrar_detalles idVenta [] d = d"
| "registrar_detalles idVenta (producto # resto) d =
     registrar_detalles idVenta resto
       (descontar_stock (r_id_producto producto) (r_cantidad producto)
          (insertar_detalle idVenta producto d))"

definition vaciar_carrito :: "nat \<Rightarrow> db \<Rightarrow> db" where
  "vaciar_carrito idCarrito d =
     d\<lparr>Productos_Carrito := filter (\<lambda>pc. pc_id_carrito pc \<noteq> idCarrito) (Productos_Carrito d)\<rparr>"

text \<open>The body of the \<^verbatim>\<open>try\<close>; the result is the id of the new sale, by which
  \<^verbatim>\<open>obtenerVentaPorId\<close> reads it back after the commit.\<close>

definition procesarVenta_cuerpo :: "nat \<Rightarrow> db \<Rightarrow> error + db \<times> nat" where
  "procesarVenta_cuerpo idUsuario d =
     (case filter (\<lambda>c. c_id_usuario c = idUsuario) (Carritos d) of
        [] \<Rightarrow> Inl CarritoNoEncontrado
      | c # _ \<Rightarrow>
          (let idCarrito = id_carrito c;
               productosCarrito = seleccionar_productosCarrito d idCarrito
           in if productosCarrito = [] then Inl CarritoVacio
              else (case validar_stock productosCarrito of
                      Some e \<Rightarrow> Inl e
                    | None \<Rightarrow>
                        (let totalVenta =
                               foldl (\<lambda>total producto. total + r_subtotal producto) 0
                                 productosCarrito;
                             idVenta = sig_id_venta d;
                             d1 = insertar_venta idUsuario totalVenta d;
                             d2 = registrar_detalles idVenta productosCarrito d1;
                             d3 = vaciar_carrito idCarrito d2
                         in Inr (d3, idVenta)))))"

definition procesarVentaDesdeCarrito :: "db \<Rightarrow> nat \<Rightarrow> db \<times> (error + nat)" where
  "procesarVentaDesdeCarrito d idUsuario = transaccion (procesarVenta_cuerpo idUsuario) d"

section \<open>Venta.cancelarVenta\<close>

text \<open>
  \<^verbatim>\<open>UPDATE Productos SET stock = stock + ?, estado = CASE WHEN estado = 'AGOTADO' AND
  stock + ? > 0 THEN 'DISPONIBLE' ELSE estado END WHERE id_producto = ?\<close>, again with
  the second \<^verbatim>\<open>stock\<close> read after the first assignment.
\<close>

definition restaurar_producto :: "int \<Rightarrow> producto \<Rightarrow> producto" where
  "restaurar_producto cantidad p =
     (let p1 = p\<lparr>stock := stock p + cantidad\<rparr>
      in p1\<lparr>estado := (if estado p1 = AGOTADO \<and> stock p1 + cantidad > 0 then DISPONIBLE
                        else estado p1)\<rparr>)"

definition restaurar_stock :: "nat \<Rightarrow> int \<Rightarrow> db \<Rightarrow> db" where
  "restaurar_stock idProducto cantidad d =
     d\<lparr>Productos :=
          map (\<lambda>p. if id_producto p = idProducto then restaurar_producto cantidad p else p)
            (Productos d)\<rparr>"

fun restaurar_detalles :: "detalle_venta list \<Rightarrow> db \<Rightarrow> db" where
  "restaurar_detalles [] d = d"
| "restaurar_detalles (detalle # resto) d =
     restaurar_detalles resto
       (restaurar_stock (dv_id_producto detalle) (dv_cantidad detalle) d)"

definition marcar_venta_cancelada :: "nat \<Rightarrow> db \<Rightarrow> db" where
  "marcar_venta_cancelada idVenta d =
     d\<lparr>Ventas :=
          map (\<lambda>v. if id_venta v = idVenta then v\<lparr>v_estado_venta := CANCELADA\<rparr> else v)
            (Ventas d)\<rparr>"

definition cancelarVenta_cuerpo :: "nat \<Rightarrow> nat \<Rightarrow> db \<Rightarrow> error + db \<times> bool" where
  "cancelarVenta_cuerpo idVenta idUsuario d =
     (if filter (\<lambda>v. id_venta v = idVenta \<and> v_id_usuario v = idUsuario
                      \<and> v_estado_venta v = COMPLETADA) (Ventas d) = []
      then Inl VentaNoCancelable
      else (let detalles = filter (\<lambda>dv. dv_id_venta dv = idVenta) (Detalles_Venta d);
                d1 = restaurar_detalles detalles d;
                d2 = marcar_venta_cancelada idVenta d1
            in Inr (d2, True)))"

definition cancelarVenta :: "db \<Rightarrow> nat \<Rightarrow> nat \<Rightarrow> db \<times> (error + bool)" where
  "cancelarVenta d idVenta idUsuario = transaccion (cancelarVenta_cuerpo idVenta idUsuario) d"

section \<open>Factura\<close>

text \<open>
  \<^verbatim>\<open>FROM Ventas v LEFT JOIN Facturas f ON v.id_venta = f.id_venta WHERE v.id_venta = ?
  AND v.estado_venta = 'COMPLETADA'\<close>: each completed sale of that id with each of its
  invoices, or once with no invoice (\<^verbatim>\<open>id_factura\<close> is \<^verbatim>\<open>NULL\<close>).
\<close>

definition seleccionar_venta_factura :: "db \<Rightarrow> nat \<Rightarrow> (venta \<times> nat option) list" where
  "seleccionar_venta_factura d idVenta =
     concat (map (\<lambda>v. case filter (\<lambda>f. f_id_venta f = id_venta v) (Facturas d) of
                          [] \<Rightarrow> [(v, None)]
                        | fs \<Rightarrow> map (\<lambda>f. (v, Some (id_factura f))) fs)
               (filter (\<lambda>v. id_venta v = idVenta \<and> v_estado_venta v = COMPLETADA) (Ventas d)))"

text \<open>\<^verbatim>\<open>if (venta[0].id_factura)\<close>: \<^verbatim>\<open>NULL\<close> and 0 are falsy.\<close>

definition tiene_factura :: "nat option \<Rightarrow> bool" where
  "tiene_factura x = (case x of None \<Rightarrow> False | Some i \<Rightarrow> i \<noteq> 0)"

text \<open>The \<^verbatim>\<open>INSERT INTO Facturas\<close>: \<^verbatim>\<open>id_venta\<close> and \<^verbatim>\<open>numero_factura\<close> are
  \<^verbatim>\<open>UNIQUE\<close>, and the store refuses a row that repeats either.\<close>

definition insertar_factura :: "nat \<Rightarrow> string \<Rightarrow> int \<Rightarrow> db \<Rightarrow> error + db \<times> nat" where
  "insertar_factura idVenta numeroFactura monto d =
     (if list_ex (\<lambda>f. f_id_venta f = idVenta \<or> numero_factura f = numeroFactura) (Facturas d)
      then Inl EntradaDuplicada
      else Inr (d\<lparr>Facturas := Facturas d @
                     [\<lparr>id_factura = sig_id_factura d, f_id_venta = idVenta,
                       numero_factura = numeroFactura, monto_total = monto,
                       f_estado = EMITIDA\<rparr>],
                  sig_id_factura := sig_id_factura d + 1\<rparr>,
                sig_id_factura d))"

text \<open>The result is the id of the new invoice, by which \<^verbatim>\<open>obtenerFacturaPorId\<close> reads
  it back after the commit.\<close>

definition generarFactura_cuerpo :: "nat \<Rightarrow> nat \<Rightarrow> nat \<Rightarrow> db \<Rightarrow> error + db \<times> nat" where
  "generarFactura_cuerpo idVenta anio mes d =
     (case seleccionar_venta_factura d idVenta of
        [] \<Rightarrow> Inl VentaNoCompletada
      | (v, idFactura) # _ \<Rightarrow>
          if tiene_factura idFactura then Inl VentaYaFacturada
          else (let numeroFactura = generarNumeroFactura d anio mes
                in insertar_factura idVenta numeroFactura (total_venta v) d))"

definition generarFactura :: "db \<Rightarrow> nat \<Rightarrow> nat \<Rightarrow> nat \<Rightarrow> db \<times> (error + nat)" where
  "generarFactura d idVenta anio mes = transaccion (generarFactura_cuerpo idVenta anio mes) d"

definition eliminarFactura_cuerpo :: "nat \<Rightarrow> db \<Rightarrow> error + db \<times> bool" where
  "eliminarFactura_cuerpo idFactura d =
     (if filter (\<lambda>f. id_factura f = idFactura) (Facturas d) = []
      then Inl FacturaNoEncontrada
      else Inr (d\<lparr>Facturas := filter (\<lambda>f. id_factura f \<noteq> idFactura) (Facturas d)\<rparr>, True))"

definition eliminarFactura :: "db \<Rightarrow> nat \<Rightarrow> db \<times> (error + bool)" where
  "eliminarFactura d idFactura = transaccion (eliminarFactura_cuerpo idFactura) d"

text \<open>\<^verbatim>\<open>marcarComoPagada\<close> is one \<^verbatim>\<open>UPDATE\<close> outside any transaction; it throws when
  no row was affected.\<close>

definition marcarComoPagada :: "db \<Rightarrow> nat \<Rightarrow> db \<times> (error + nat)" where
  "marcarComoPagada d idFactura =
     (if filter (\<lambda>f. id_factura f = idFactura \<and> f_estado f = EMITIDA) (Facturas d) = []
      then (d, Inl FacturaNoPagable)
      else (d\<lparr>Facturas :=
                 map (\<lambda>f. if id_factura f = idFactura \<and> f_estado f = EMITIDA
                           then f\<lparr>f_estado := PAGADA\<rparr> else f) (Facturas d)\<rparr>,
            Inr idFactura))"

text \<open>
  \<^verbatim>\<open>FROM Facturas f INNER JOIN Ventas v ON f.id_venta = v.id_venta WHERE f.id_factura = ?
  AND f.estado IN ('EMITIDA', 'PAGADA')\<close>.
\<close>

definition seleccionar_factura_venta :: "db \<Rightarrow> nat \<Rightarrow> (factura \<times> venta) list" where
  "seleccionar_factura_venta d idFactura =
     concat (map (\<lambda>f. map (\<lambda>v. (f, v)) (filter (\<lambda>v. id_venta v = f_id_venta f) (Ventas d)))
               (filter (\<lambda>f. id_factura f = idFactura \<and> (f_estado f = EMITIDA \<or> f_estado f = PAGADA))
                  (Facturas d)))"

definition marcar_factura_anulada :: "nat \<Rightarrow> db \<Rightarrow> db" where
  "marcar_factura_anulada idFactura d =
     d\<lparr>Facturas :=
          map (\<lambda>f. if id_factura f = idFactura then f\<lparr>f_estado := ANULADA\<rparr> else f)
            (Facturas d)\<rparr>"

definition anularFactura_cuerpo :: "nat \<Rightarrow> db \<Rightarrow> error + db \<times> nat" where
  "anularFactura_cuerpo idFactura d =
     (case seleccionar_factura_venta d idFactura of
        [] \<Rightarrow> Inl FacturaNoAnulable
      | (f, v) # _ \<Rightarrow>
          (let d1 = marcar_factura_anulada idFactura d
           in if v_estado_venta v = COMPLETADA
              then (let d2 = marcar_venta_cancelada (id_venta v) d1;
                        detalles = filter (\<lambda>dv. dv_id_venta dv = id_venta v) (Detalles_Venta d2);
                        d3 = restaurar_detalles detalles d2
                    in Inr (d3, idFactura))
              else Inr (d1, idFactura)))"

definition anularFactura :: "db \<Rightarrow> nat \<Rightarrow> db \<times> (error + nat)" where
  "anularFactura d idFactura = transaccion (anularFactura_cuerpo idFactura) d"

section \<open>VentaController\<close>

text \<open>
  \<^verbatim>\<open>procesarCompra\<close> awaits the sale and then the invoice, each in its own transaction;
  the \<^verbatim>\<open>catch\<close> answers with the error's message. \<^verbatim>\<open>cancelarCompra\<close> awaits
  \<^verbatim>\<open>Venta.cancelarVenta\<close> and nothing else.
\<close>

definition procesarCompra :: "db \<Rightarrow> nat \<Rightarrow> nat \<Rightarrow> nat \<Rightarrow> db \<times> (error + nat \<times> nat)" where
  "procesarCompra d idUsuario anio mes =
     (case procesarVentaDesdeCarrito d idUsuario of
        (d1, Inl e) \<Rightarrow> (d1, Inl e)
      | (d1, Inr idVenta) \<Rightarrow>
          (case generarFactura d1 idVenta anio mes of
             (d2, Inl e) \<Rightarrow> (d2, Inl e)
           | (d2, Inr idFactura) \<Rightarrow> (d2, Inr (idVenta, idFactura))))"

definition cancelarCompra :: "db \<Rightarrow> nat \<Rightarrow> nat \<Rightarrow> db \<times> (error + bool)" where
  "cancelarCompra d idVenta idUsuario = cancelarVenta d idVenta idUsuario"

section \<open>Two requests for an invoice at the same time\<close>

text \<open>
  The statements of \<^verbatim>\<open>Factura.generarFactura\<close> reach the store one at a time, and
  between two statements of one request the statements of another request may run. A
  request first reads: the join of the sale with its invoice on the connection of its
  transaction, and the last number of the month in \<^verbatim>\<open>generarNumeroFactura\<close>, which
  calls \<^verbatim>\<open>db.execute\<close> on the pool and takes no lock. Then it writes: the
  \<^verbatim>\<open>INSERT\<close> with the number it holds, and the commit. A request is at its start,
  holds a number and an amount, or has ended with an error or the id of its invoice.
\<close>

datatype peticion = Inicio | Numerada string int | Terminada "error + nat"

fun paso_factura :: "nat \<Rightarrow> nat \<Rightarrow> nat \<Rightarrow> db \<Rightarrow> peticion \<Rightarrow> db \<times> peticion" where
  "paso_factura idVenta anio mes d Inicio =
     (case seleccionar_venta_factura d idVenta of
        [] \<Rightarrow> (d, Terminada (Inl VentaNoCompletada))
      | (v, idFactura) # _ \<Rightarrow>
          if tiene_factura idFactura then (d, Terminada (Inl VentaYaFacturada))
          else (d, Numerada (generarNumeroFactura d anio mes) (total_venta v)))"
| "paso_factura idVenta anio mes d (Numerada numeroFactura monto) =
     (case insertar_factura idVenta numeroFactura monto d of
        Inl e \<Rightarrow> (d, Terminada (Inl e))
      | Inr (d', idFactura) \<Rightarrow> (d', Terminada (Inr idFactura)))"
| "paso_factura idVenta anio mes d (Terminada r) = (d, Terminada r)"

text \<open>
  Two requests, for the sales \<open>idVenta1\<close> and \<open>idVenta2\<close>, under a schedule: the list says
  for each step whether the first request moves (\<open>True\<close>) or the second.
\<close>

fun ejecutar ::
  "nat \<Rightarrow> nat \<Rightarrow> nat \<Rightarrow> nat \<Rightarrow> bool list \<Rightarrow> db \<times> peticion \<times> peticion
     \<Rightarrow> db \<times> peticion \<times> peticion" where
  "ejecutar idVenta1 idVenta2 anio mes [] c = c"
| "ejecutar idVenta1 idVenta2 anio mes (primera # resto) (d, p1, p2) =
     (if primera
      then (case paso_factura idVenta1 anio mes d p1 of
              (d', p1') \<Rightarrow> ejecutar idVenta1 idVenta2 anio mes resto (d', p1', p2))
      else (case paso_factura idVenta2 anio mes d p2 of
              (d', p2') \<Rightarrow> ejecutar idVenta1 idVenta2 anio mes resto (d', p1, p2')))"

section \<open>Two checkouts at the same time\<close>

text \<open>
  The statements of \<^verbatim>\<open>Venta.procesarVentaDesdeCarrito\<close> reach the store one at a time
  as well. A request first reads: the cart of the user and the join of its lines with
  the products, with plain \<^verbatim>\<open>SELECT\<close> statements that lock no row; the stock check of
  step 3 and the total are computed in the process from the rows it has read. Then it
  writes, from those rows: the sale, for each row the sale line and the \<^verbatim>\<open>UPDATE\<close>
  that subtracts the quantity from the stock the row has at that moment, the
  \<^verbatim>\<open>DELETE\<close> of the cart lines, and the commit. A request is at its start, holds the
  id of the cart and the rows it has validated, or has ended with an error or the id of
  its sale.
\<close>

datatype peticion_venta =
  InicioV | Validada nat "fila_carrito list" | TerminadaV "error + nat"

fun paso_venta :: "nat \<Rightarrow> db \<Rightarrow> peticion_venta \<Rightarrow> db \<times> peticion_venta" where
  "paso_venta idUsuario d InicioV =
     (case filter (\<lambda>c. c_id_usuario c = idUsuario) (Carritos d) of
        [] \<Rightarrow> (d, TerminadaV (Inl CarritoNoEncontrado))
      | c # _ \<Rightarrow>
          (let idCarrito = id_carrito c;
               productosCarrito = seleccionar_productosCarrito d idCarrito
           in if productosCarrito = [] then (d, TerminadaV (Inl CarritoVacio))
              else (case validar_stock productosCarrito of
                      Some e \<Rightarrow> (d, TerminadaV (Inl e))
                    | None \<Rightarrow> (d, Validada idCarrito productosCarrito))))"
| "paso_venta idUsuario d (Validada idCarrito productosCarrito) =
     (let totalVenta =
            foldl (\<lambda>total producto. total + r_subtotal producto) 0 productosCarrito;
          idVenta = sig_id_venta d;
          d1 = insertar_venta idUsuario totalVenta d;
          d2 = registrar_detalles idVenta productosCarrito d1;
          d3 = vaciar_carrito idCarrito d2
      in (d3, TerminadaV (Inr idVenta)))"
| "paso_venta idUsuario d (TerminadaV r) = (d, TerminadaV r)"

text \<open>
  Two requests, of the users \<open>idUsuario1\<close> and \<open>idUsuario2\<close>, under a schedule: the list
  says for each step whether the first request moves (\<open>True\<close>) or the second.
\<close>

fun ejecutar_ventas ::
  "nat \<Rightarrow> nat \<Rightarrow> bool list \<Rightarrow> db \<times> peticion_venta \<times> peticion_venta
     \<Rightarrow> db \<times> peticion_venta \<times> peticion_venta" where
  "ejecutar_ventas idUsuario1 idUsuario2 [] c = c"
| "ejecutar_ventas idUsuario1 idUsuario2 (primera # resto) (d, p1, p2) =
     (if primera
      then (case paso_venta idUsuario1 d p1 of
              (d', p1') \<Rightarrow> ejecutar_ventas idUsuario1 idUsuario2 resto (d', p1', p2))
      else (case paso_venta idUsuario2 d p2 of
              (d', p2') \<Rightarrow> ejecutar_ventas idUsuario1 idUsuario2 resto (d', p1, p2')))"

section \<open>Integrity of the store and what the properties observe\<close>

text \<open>
  The keys of the schema: primary keys and \<^verbatim>\<open>UNIQUE\<close> columns hold no value twice, an
  \<^verbatim>\<open>AUTO_INCREMENT\<close> counter starts at 1 and every id is positive and below its
  counter, and the foreign keys of \<^verbatim>\<open>Detalles_Venta\<close> and \<^verbatim>\<open>Facturas\<close> name an
  existing sale.
\<close>

definition wf_db :: "db \<Rightarrow> bool" where
  "wf_db d \<longleftrightarrow>
     distinct (map id_producto (Productos d)) \<and>
     distinct (map id_carrito (Carritos d)) \<and>
     distinct (map c_id_usuario (Carritos d)) \<and>
     distinct (map (\<lambda>pc. (pc_id_carrito pc, pc_id_producto pc)) (Productos_Carrito d)) \<and>
     distinct (map id_venta (Ventas d)) \<and>
     0 < sig_id_venta d \<and> 0 < sig_id_factura d \<and>
     (\<forall>v \<in> set (Ventas d). 0 < id_venta v \<and> id_venta v < sig_id_venta d) \<and>
     (\<forall>dv \<in> set (Detalles_Venta d). dv_id_venta dv \<in> id_venta ` set (Ventas d)) \<and>
     distinct (map id_factura (Facturas d)) \<and>
     distinct (map f_id_venta (Facturas d)) \<and>
     distinct (map numero_factura (Facturas d)) \<and>
     (\<forall>f \<in> set (Facturas d). 0 < id_factura f \<and> id_factura f < sig_id_factura d
        \<and> f_id_venta f \<in> id_venta ` set (Ventas d))"

text \<open>The stock records: each product's id with its quantity, in table order.\<close>

definition existencias :: "db \<Rightarrow> (nat \<times> int) list" where
  "existencias d = map (\<lambda>p. (id_producto p, stock p)) (Productos d)"

definition sin_stock_negativo :: "db \<Rightarrow> bool" where
  "sin_stock_negativo d \<longleftrightarrow> (\<forall>(i, s) \<in> set (existencias d). 0 \<le> s)"

text \<open>The lines of a sale, and the quantity of a product that the sale's lines record.\<close>

definition lineas_venta :: "db \<Rightarrow> nat \<Rightarrow> detalle_venta list" where
  "lineas_venta d idVenta = filter (\<lambda>dv. dv_id_venta dv = idVenta) (Detalles_Venta d)"

definition vendido :: "db \<Rightarrow> nat \<Rightarrow> nat \<Rightarrow> int" where
  "vendido d idVenta idProducto =
     sum_list (map dv_cantidad
       (filter (\<lambda>dv. dv_id_producto dv = idProducto) (lineas_venta d idVenta)))"

definition estados_venta :: "db \<Rightarrow> nat \<Rightarrow> estado_venta list" where
  "estados_venta d idVenta =
     map v_estado_venta (filter (\<lambda>v. id_venta v = idVenta) (Ventas d))"

definition estados_factura :: "db \<Rightarrow> nat \<Rightarrow> estado_factura list" where
  "estados_factura d idFactura =
     map f_estado (filter (\<lambda>f. id_factura f = idFactura) (Facturas d))"

text \<open>The rows that the checkout of a user reads: the lines of the user's cart whose
  product is DISPONIBLE, each with the product's name, price and stock.\<close>

definition filas_usuario :: "db \<Rightarrow> nat \<Rightarrow> fila_carrito list" where
  "filas_usuario d idUsuario =
     (case filter (\<lambda>c. c_id_usuario c = idUsuario) (Carritos d) of
        [] \<Rightarrow> []
      | c # _ \<Rightarrow> seleccionar_productosCarrito d (id_carrito c))"



text \<open>The sale lines that \<open>registrar_detalles\<close> appends, numbered from the counter.\<close>

fun detalles_de_filas :: "nat \<Rightarrow> nat \<Rightarrow> fila_carrito list \<Rightarrow> detalle_venta list" where
  "detalles_de_filas idVenta n [] = []"
| "detalles_de_filas idVenta n (producto # resto) =
     \<lparr>id_detalle_venta = n, dv_id_venta = idVenta,
      dv_id_producto = r_id_producto producto, dv_cantidad = r_cantidad producto,
      precio_unitario = r_precio producto, subtotal_linea = r_subtotal producto\<rparr>
     # detalles_de_filas idVenta (n + 1) resto"

text \<open>The quantity that a list of cart rows asks of a product.\<close>

definition pedido :: "fila_carrito list \<Rightarrow> nat \<Rightarrow> int" where
  "pedido filas idProducto =
     sum_list (map r_cantidad (filter (\<lambda>r. r_id_producto r = idProducto) filas))"

section \<open>Example stores\<close>

text \<open>
  A shop with two products. User 7 has two tables in the cart; user 8 asks for six tables
  and three chairs, more than the stock of either; user 9 has one chair in the cart.
\<close>

definition tienda :: db where
  "tienda =
     \<lparr>Productos =
        [\<lparr>id_producto = 1, nombre_producto = ''Mesa'', precio = 15000, stock = 5,
          estado = DISPONIBLE\<rparr>,
         \<lparr>id_producto = 2, nombre_producto = ''Silla'', precio = 4050, stock = 1,
          estado = DISPONIBLE\<rparr>],
      Carritos =
        [\<lparr>id_carrito = 1, c_id_usuario = 7\<rparr>, \<lparr>id_carrito = 2, c_id_usuario = 8\<rparr>,
         \<lparr>id_carrito = 3, c_id_usuario = 9\<rparr>],
      Productos_Carrito =
        [\<lparr>pc_id_carrito = 1, pc_id_producto = 1, pc_cantidad = 2\<rparr>,
         \<lparr>pc_id_carrito = 2, pc_id_producto = 1, pc_cantidad = 6\<rparr>,
         \<lparr>pc_id_carrito = 2, pc_id_producto = 2, pc_cantidad = 3\<rparr>,
         \<lparr>pc_id_carrito = 3, pc_id_producto = 2, pc_cantidad = 1\<rparr>],
      Ventas = [], Detalles_Venta = [], Facturas = [],
      sig_id_venta = 1, sig_id_detalle_venta = 1, sig_id_factura = 1\<rparr>"

text \<open>The shop with two carts that ask for the table: user 7 for two, user 9 for four,
  of the five in stock.\<close>

definition tienda_dos_carritos :: db where
  "tienda_dos_carritos =
     tienda\<lparr>Productos_Carrito :=
              [\<lparr>pc_id_carrito = 1, pc_id_producto = 1, pc_cantidad = 2\<rparr>,
               \<lparr>pc_id_carrito = 3, pc_id_producto = 1, pc_cantidad = 4\<rparr>]\<rparr>"


text \<open>The same shop in November 2024 after ten thousand invoices in the month: the
  invoices with the sequences 9999 and 10000 are the last two that were issued.\<close>

definition tienda_9999 :: db where
  "tienda_9999 =
     tienda\<lparr>Ventas :=
              [\<lparr>id_venta = 1, v_id_usuario = 8, total_venta = 4050, v_estado_venta = COMPLETADA\<rparr>,
               \<lparr>id_venta = 2, v_id_usuario = 8, total_venta = 4050, v_estado_venta = COMPLETADA\<rparr>],
            Facturas :=
              [\<lparr>id_factura = 1, f_id_venta = 1, numero_factura = ''2024119999'',
                monto_total = 4050, f_estado = EMITIDA\<rparr>,
               \<lparr>id_factura = 2, f_id_venta = 2, numero_factura = ''20241110000'',
                monto_total = 4050, f_estado = EMITIDA\<rparr>],
            sig_id_venta := 3, sig_id_factura := 3\<rparr>"

text \<open>That shop after the sale of two tables to user 7, as sale 3.\<close>

definition tienda_9999_vendida :: db where
  "tienda_9999_vendida =
     tienda_9999
       \<lparr>Productos :=
          [\<lparr>id_producto = 1, nombre_producto = ''Mesa'', precio = 15000, stock = 3,
            estado = DISPONIBLE\<rparr>,
           \<lparr>id_producto = 2, nombre_producto = ''Silla'', precio = 4050, stock = 1,
            estado = DISPONIBLE\<rparr>],
        Productos_Carrito :=
          [\<lparr>pc_id_carrito = 2, pc_id_producto = 1, pc_cantidad = 6\<rparr>,
           \<lparr>pc_id_carrito = 2, pc_id_producto = 2, pc_cantidad = 3\<rparr>,
           \<lparr>pc_id_carrito = 3, pc_id_producto = 2, pc_cantidad = 1\<rparr>],
        Ventas :=
          [\<lparr>id_venta = 1, v_id_usuario = 8, total_venta = 4050, v_estado_venta = COMPLETADA\<rparr>,
           \<lparr>id_venta = 2, v_id_usuario = 8, total_venta = 4050, v_estado_venta = COMPLETADA\<rparr>,
           \<lparr>id_venta = 3, v_id_usuario = 7, total_venta = 30000, v_estado_venta = COMPLETADA\<rparr>],
        Detalles_Venta :=
          [\<lparr>id_detalle_venta = 1, dv_id_venta = 3, dv_id_producto = 1, dv_cantidad = 2,
            precio_unitario = 15000, subtotal_linea = 30000\<rparr>],
        sig_id_venta := 4, sig_id_detalle_venta := 2\<rparr>"

text \<open>The shop after the sale to user 7, before the invoice of the sale is issued.\<close>

definition tienda_sin_factura :: db where
  "tienda_sin_factura =
     \<lparr>Productos =
        [\<lparr>id_producto = 1, nombre_producto = ''Mesa'', precio = 15000, stock = 3,
          estado = DISPONIBLE\<rparr>,
         \<lparr>id_producto = 2, nombre_producto = ''Silla'', precio = 4050, stock = 1,
          estado = DISPONIBLE\<rparr>],
      Carritos =
        [\<lparr>id_carrito = 1, c_id_usuario = 7\<rparr>, \<lparr>id_carrito = 2, c_id_usuario = 8\<rparr>,
         \<lparr>id_carrito = 3, c_id_usuario = 9\<rparr>],
      Productos_Carrito =
        [\<lparr>pc_id_carrito = 2, pc_id_producto = 1, pc_cantidad = 6\<rparr>,
         \<lparr>pc_id_carrito = 2, pc_id_producto = 2, pc_cantidad = 3\<rparr>,
         \<lparr>pc_id_carrito = 3, pc_id_producto = 2, pc_cantidad = 1\<rparr>],
      Ventas =
        [\<lparr>id_venta = 1, v_id_usuario = 7, total_venta = 30000, v_estado_venta = COMPLETADA\<rparr>],
      Detalles_Venta =
        [\<lparr>id_detalle_venta = 1, dv_id_venta = 1, dv_id_producto = 1, dv_cantidad = 2,
          precio_unitario = 15000, subtotal_linea = 30000\<rparr>],
      Facturas = [],
      sig_id_venta = 2, sig_id_detalle_venta = 2, sig_id_factura = 1\<rparr>"

text \<open>The shop after a second sale, of the chair to user 9, with no invoice issued yet.\<close>

definition tienda_dos_ventas :: db where
  "tienda_dos_ventas =
     tienda_sin_factura
       \<lparr>Productos :=
          [\<lparr>id_producto = 1, nombre_producto = ''Mesa'', precio = 15000, stock = 3,
            estado = DISPONIBLE\<rparr>,
           \<lparr>id_producto = 2, nombre_producto = ''Silla'', precio = 4050, stock = 0,
            estado = AGOTADO\<rparr>],
        Productos_Carrito :=
          [\<lparr>pc_id_carrito = 2, pc_id_producto = 1, pc_cantidad = 6\<rparr>,
           \<lparr>pc_id_carrito = 2, pc_id_producto = 2, pc_cantidad = 3\<rparr>],
        Ventas :=
          [\<lparr>id_venta = 1, v_id_usuario = 7, total_venta = 30000, v_estado_venta = COMPLETADA\<rparr>,
           \<lparr>id_venta = 2, v_id_usuario = 9, total_venta = 4050, v_estado_venta = COMPLETADA\<rparr>],
        Detalles_Venta :=
          [\<lparr>id_detalle_venta = 1, dv_id_venta = 1, dv_id_producto = 1, dv_cantidad = 2,
            precio_unitario = 15000, subtotal_linea = 30000\<rparr>,
           \<lparr>id_detalle_venta = 2, dv_id_venta = 2, dv_id_producto = 2, dv_cantidad = 1,
            precio_unitario = 4050, subtotal_linea = 4050\<rparr>],
        sig_id_venta := 3, sig_id_detalle_venta := 3\<rparr>"

text \<open>The shop after the purchase of user 7 in November 2024: sale 1 with invoice 1.\<close>

definition tienda_vendida :: db where
  "tienda_vendida =
     tienda_sin_factura
       \<lparr>Facturas :=
          [\<lparr>id_factura = 1, f_id_venta = 1, numero_factura = ''2024110001'',
            monto_total = 30000, f_estado = EMITIDA\<rparr>],
        sig_id_factura := 2\<rparr>"

text \<open>The shop after invoice 1 was then voided: sale 1 is cancelled, the stock is back.\<close>

definition tienda_anulada :: db where
  "tienda_anulada =
     tienda_vendida
       \<lparr>Productos :=
          [\<lparr>id_producto = 1, nombre_producto = ''Mesa'', precio = 15000, stock = 5,
            estado = DISPONIBLE\<rparr>,
           \<lparr>id_producto = 2, nombre_producto = ''Silla'', precio = 4050, stock = 1,
            estado = DISPONIBLE\<rparr>],
        Ventas :=
          [\<lparr>id_venta = 1, v_id_usuario = 7, total_venta = 30000, v_estado_venta = CANCELADA\<rparr>],
        Facturas :=
          [\<lparr>id_factura = 1, f_id_venta = 1, numero_factura = ''2024110001'',
            monto_total = 30000, f_estado = ANULADA\<rparr>]\<rparr>"

section \<open>Lemmas about the statements and loops\<close>

lemma existencias_descontar:
  "existencias (descontar_stock i c d) =
     map (\<lambda>(j, s). (j, if j = i then s - c else s)) (existencias d)"
  by (simp add: existencias_def descontar_stock_def descontar_producto_def Let_def)

lemma existencias_insertar_detalle [simp]:
  "existencias (insertar_detalle idv r d) = existencias d"
  by (simp add: existencias_def insertar_detalle_def)

lemma pedido_Nil [simp]: "pedido [] i = 0"
  by (simp add: pedido_def)

lemma pedido_Cons:
  "pedido (r # rs) i = (if r_id_producto r = i then r_cantidad r else 0) + pedido rs i"
  by (simp add: pedido_def)

lemma existencias_registrar:
  "existencias (registrar_detalles idv filas d) =
     map (\<lambda>(j, s). (j, s - pedido filas j)) (existencias d)"
proof (induction filas arbitrary: d)
  case Nil
  then show ?case by simp
next
  case (Cons r rs)
  show ?case
    by (simp add: Cons.IH existencias_descontar pedido_Cons split_def o_def)
qed

lemma registrar_marco:
  "Ventas (registrar_detalles idv filas d) = Ventas d"
  "Facturas (registrar_detalles idv filas d) = Facturas d"
  "Carritos (registrar_detalles idv filas d) = Carritos d"
  "Productos_Carrito (registrar_detalles idv filas d) = Productos_Carrito d"
  "sig_id_venta (registrar_detalles idv filas d) = sig_id_venta d"
  "sig_id_factura (registrar_detalles idv filas d) = sig_id_factura d"
  by (induction filas arbitrary: d; simp add: descontar_stock_def insertar_detalle_def)+

lemma detalles_registrar:
  "Detalles_Venta (registrar_detalles idv filas d) =
     Detalles_Venta d @ detalles_de_filas idv (sig_id_detalle_venta d) filas"
proof (induction filas arbitrary: d)
  case Nil
  then show ?case by simp
next
  case (Cons r rs)
  show ?case
    by (simp add: Cons.IH descontar_stock_def insertar_detalle_def)
qed

lemma detalles_de_filas_venta:
  "filter (\<lambda>dv. dv_id_venta dv = idv) (detalles_de_filas idv n filas) = detalles_de_filas idv n filas"
  by (induction filas arbitrary: n) auto

lemma detalles_de_filas_cantidad:
  "sum_list (map dv_cantidad (filter (\<lambda>dv. dv_id_producto dv = i) (detalles_de_filas idv n filas)))
     = pedido filas i"
  by (induction filas arbitrary: n) (auto simp: pedido_Cons)

lemma detalles_de_filas_subtotal:
  "sum_list (map subtotal_linea (detalles_de_filas idv n filas)) = sum_list (map r_subtotal filas)"
  by (induction filas arbitrary: n) auto

lemma foldl_total:
  "foldl (\<lambda>total producto. total + r_subtotal producto) a filas = a + sum_list (map r_subtotal filas)"
  by (induction filas arbitrary: a) auto

lemma procesarVenta_exito:
  assumes "procesarVentaDesdeCarrito d u = (d', Inr idv)"
  obtains c where
    "c \<in> set (Carritos d)" "c_id_usuario c = u"
    "seleccionar_productosCarrito d (id_carrito c) \<noteq> []"
    "validar_stock (seleccionar_productosCarrito d (id_carrito c)) = None"
    "idv = sig_id_venta d"
    "d' = vaciar_carrito (id_carrito c)
            (registrar_detalles (sig_id_venta d) (seleccionar_productosCarrito d (id_carrito c))
               (insertar_venta u (sum_list (map r_subtotal (seleccionar_productosCarrito d (id_carrito c)))) d))"
proof -
  from assms obtain c cs where f: "filter (\<lambda>c. c_id_usuario c = u) (Carritos d) = c # cs"
    by (auto simp: procesarVentaDesdeCarrito_def transaccion_def procesarVenta_cuerpo_def
        split: list.splits sum.splits)
  then have "c \<in> set (filter (\<lambda>c. c_id_usuario c = u) (Carritos d))" by simp
  then have c: "c \<in> set (Carritos d)" "c_id_usuario c = u" by auto
  from assms f show thesis
    using c
    by (intro that[of c])
      (auto simp: procesarVentaDesdeCarrito_def transaccion_def procesarVenta_cuerpo_def
        Let_def foldl_total split: if_splits option.splits)
qed

lemma procesarVenta_fallo:
  "procesarVentaDesdeCarrito d u = (d', Inl e) \<Longrightarrow> d' = d"
  by (auto simp: procesarVentaDesdeCarrito_def transaccion_def split: sum.splits)


lemma filter_clave_unica:
  "distinct (map f xs) \<Longrightarrow> length (filter (\<lambda>x. f x = k \<and> P x) xs) \<le> 1"
proof (induction xs)
  case Nil
  then show ?case by simp
next
  case (Cons x xs)
  show ?case
  proof (cases "f x = k")
    case True
    with Cons.prems have "k \<notin> f ` set xs" by auto
    then have "filter (\<lambda>x. f x = k \<and> P x) xs = []"
      by (auto simp: filter_empty_conv)
    then show ?thesis by simp
  next
    case False
    with Cons show ?thesis by simp
  qed
qed

lemma distinct_concat_claves:
  assumes "distinct (map f xs)"
    and "\<And>x. x \<in> set xs \<Longrightarrow> length (g x) \<le> 1 \<and> (\<forall>y \<in> set (g x). h y = f x)"
  shows "distinct (map h (concat (map g xs)))"
  using assms
proof (induction xs)
  case Nil
  then show ?case by simp
next
  case (Cons x xs)
  have uno: "distinct (map h (g x))"
  proof -
    have "length (map h (g x)) \<le> 1" using Cons.prems(2)[of x] by simp
    then show ?thesis by (cases "map h (g x)") auto
  qed
  have resto: "distinct (map h (concat (map g xs)))"
    using Cons by simp
  have disj: "set (map h (g x)) \<inter> set (map h (concat (map g xs))) = {}"
  proof -
    have "set (map h (g x)) \<subseteq> {f x}" using Cons.prems(2)[of x] by auto
    moreover have "set (map h (concat (map g xs))) \<subseteq> f ` set xs"
      using Cons.prems(2) by fastforce
    moreover have "f x \<notin> f ` set xs" using Cons.prems(1) by simp
    ultimately show ?thesis by blast
  qed
  show ?case using uno resto disj by simp
qed

lemma filas_distintas:
  assumes "wf_db d"
  shows "distinct (map r_id_producto (seleccionar_productosCarrito d idCarrito))"
proof -
  let ?pcs = "filter (\<lambda>pc. pc_id_carrito pc = idCarrito) (Productos_Carrito d)"
  have "distinct (map (\<lambda>pc. (pc_id_carrito pc, pc_id_producto pc)) ?pcs)"
    using assms by (simp add: wf_db_def distinct_map_filter)
  then have d1: "distinct (map pc_id_producto ?pcs)"
    by (auto simp: distinct_map inj_on_def)
  have d2: "distinct (map id_producto (Productos d))" using assms by (simp add: wf_db_def)
  show ?thesis
    unfolding seleccionar_productosCarrito_def
  proof (rule distinct_concat_claves[OF d1])
    fix pc
    show "length (map (fila_de pc)
            (filter (\<lambda>p. id_producto p = pc_id_producto pc \<and> estado p = DISPONIBLE) (Productos d))) \<le> 1
          \<and> (\<forall>y \<in> set (map (fila_de pc)
            (filter (\<lambda>p. id_producto p = pc_id_producto pc \<and> estado p = DISPONIBLE) (Productos d))).
               r_id_producto y = pc_id_producto pc)"
      using filter_clave_unica[OF d2, of "pc_id_producto pc" "\<lambda>p. estado p = DISPONIBLE"]
      by (auto simp: fila_de_def)
  qed
qed

lemma filas_existencias:
  "r \<in> set (seleccionar_productosCarrito d idCarrito) \<Longrightarrow>
     (r_id_producto r, r_stock r) \<in> set (existencias d)"
  by (force simp: seleccionar_productosCarrito_def existencias_def fila_de_def)

lemma pedido_ausente:
  "i \<notin> r_id_producto ` set filas \<Longrightarrow> pedido filas i = 0"
  by (induction filas) (auto simp: pedido_Cons)

lemma pedido_unico:
  "distinct (map r_id_producto filas) \<Longrightarrow> r \<in> set filas \<Longrightarrow>
     pedido filas (r_id_producto r) = r_cantidad r"
  by (induction filas) (auto simp: pedido_Cons pedido_ausente)

lemma validar_stock_None:
  "validar_stock filas = None \<Longrightarrow> r \<in> set filas \<Longrightarrow> r_cantidad r \<le> r_stock r"
  by (induction filas) (auto split: if_splits)

lemma pedido_cubierto:
  assumes wf: "wf_db d"
    and ok: "validar_stock (seleccionar_productosCarrito d idCarrito) = None"
    and en: "(i, s) \<in> set (existencias d)"
    and nn: "0 \<le> s"
  shows "pedido (seleccionar_productosCarrito d idCarrito) i \<le> s"
proof (cases "i \<in> r_id_producto ` set (seleccionar_productosCarrito d idCarrito)")
  case False
  then show ?thesis using nn by (simp add: pedido_ausente)
next
  case True
  then obtain r where r: "r \<in> set (seleccionar_productosCarrito d idCarrito)" "r_id_producto r = i"
    by auto
  have "distinct (map fst (existencias d))"
    using wf by (simp add: wf_db_def existencias_def o_def)
  moreover have "(i, r_stock r) \<in> set (existencias d)"
    using filas_existencias[OF r(1)] r(2) by simp
  ultimately have "r_stock r = s" using en
    by (meson eq_key_imp_eq_value)
  moreover have "r_cantidad r \<le> r_stock r" using validar_stock_None[OF ok r(1)] .
  moreover have "pedido (seleccionar_productosCarrito d idCarrito) i = r_cantidad r"
    using pedido_unico[OF filas_distintas[OF wf] r(1)] r(2) by simp
  ultimately show ?thesis by simp
qed

lemma lineas_venta_nueva:
  assumes "wf_db d"
  shows "lineas_venta d (sig_id_venta d) = []"
  using assms by (fastforce simp: wf_db_def lineas_venta_def filter_empty_conv)


lemma existencias_venta_exito:
  assumes wf: "wf_db d"
    and ex: "procesarVentaDesdeCarrito d u = (d', Inr idv)"
  shows "\<exists>filas. validar_stock filas = None
           \<and> (\<exists>c. filas = seleccionar_productosCarrito d c)
           \<and> existencias d' = map (\<lambda>(i, s). (i, s - pedido filas i)) (existencias d)
           \<and> (\<forall>i. vendido d' idv i = pedido filas i)"
proof (rule procesarVenta_exito[OF ex])
  fix c :: carrito
  let ?filas = "seleccionar_productosCarrito d (id_carrito c)"
  assume ok: "validar_stock ?filas = None"
    and idv: "idv = sig_id_venta d"
    and d': "d' = vaciar_carrito (id_carrito c)
            (registrar_detalles (sig_id_venta d) ?filas
               (insertar_venta u (sum_list (map r_subtotal ?filas)) d))"
  have e: "existencias d' = map (\<lambda>(i, s). (i, s - pedido ?filas i)) (existencias d)"
    unfolding d'
    by (simp add: existencias_def vaciar_carrito_def insertar_venta_def
          existencias_registrar[unfolded existencias_def])
  have l: "lineas_venta d' idv = detalles_de_filas idv (sig_id_detalle_venta d) ?filas"
    using lineas_venta_nueva[OF wf]
    unfolding d' idv lineas_venta_def
    by (simp add: vaciar_carrito_def detalles_registrar insertar_venta_def detalles_de_filas_venta)
  have v: "vendido d' idv i = pedido ?filas i" for i
    by (simp add: vendido_def l detalles_de_filas_cantidad)
  show ?thesis using ok e v by blast
qed

lemma existencias_restaurar:
  "existencias (restaurar_stock i c d) =
     map (\<lambda>(j, s). (j, if j = i then s + c else s)) (existencias d)"
  by (simp add: existencias_def restaurar_stock_def restaurar_producto_def Let_def)

lemma existencias_restaurar_detalles:
  "existencias (restaurar_detalles ds d) =
     map (\<lambda>(j, s). (j, s + sum_list (map dv_cantidad (filter (\<lambda>dv. dv_id_producto dv = j) ds))))
       (existencias d)"
proof (induction ds arbitrary: d)
  case Nil
  then show ?case by simp
next
  case (Cons x xs)
  show ?case
    by (simp add: Cons.IH existencias_restaurar split_def o_def)
qed

lemma restaurar_marco:
  "Ventas (restaurar_detalles ds d) = Ventas d"
  "Facturas (restaurar_detalles ds d) = Facturas d"
  "Detalles_Venta (restaurar_detalles ds d) = Detalles_Venta d"
  "Carritos (restaurar_detalles ds d) = Carritos d"
  "Productos_Carrito (restaurar_detalles ds d) = Productos_Carrito d"
  by (induction ds arbitrary: d; simp add: restaurar_stock_def)+

lemma cancelarVenta_exito:
  assumes "v \<in> set (Ventas d)" "id_venta v = idv" "v_id_usuario v = u" "v_estado_venta v = COMPLETADA"
  shows "cancelarVenta d idv u =
           (marcar_venta_cancelada idv (restaurar_detalles (lineas_venta d idv) d), Inr True)"
proof -
  have "v \<in> set (filter (\<lambda>v. id_venta v = idv \<and> v_id_usuario v = u
                      \<and> v_estado_venta v = COMPLETADA) (Ventas d))"
    using assms by simp
  then have "filter (\<lambda>v. id_venta v = idv \<and> v_id_usuario v = u
                      \<and> v_estado_venta v = COMPLETADA) (Ventas d) \<noteq> []"
    by (metis empty_iff empty_set)
  then show ?thesis
    by (simp add: cancelarVenta_def transaccion_def cancelarVenta_cuerpo_def lineas_venta_def)
qed

lemma cancelarVenta_casos:
  "cancelarVenta d idv u = (d', r) \<Longrightarrow>
     (d' = d \<and> r = Inl VentaNoCancelable) \<or>
     (d' = marcar_venta_cancelada idv (restaurar_detalles (lineas_venta d idv) d) \<and> r = Inr True)"
  by (auto simp: cancelarVenta_def transaccion_def cancelarVenta_cuerpo_def lineas_venta_def Let_def
      split: if_splits)

lemma existencias_compensada:
  "existencias (marcar_venta_cancelada idv (restaurar_detalles (lineas_venta d idv) d)) =
     map (\<lambda>(i, s). (i, s + vendido d idv i)) (existencias d)"
  by (simp add: existencias_def marcar_venta_cancelada_def vendido_def
        existencias_restaurar_detalles[unfolded existencias_def])

lemma estados_venta_cancelada:
  "estados_venta (marcar_venta_cancelada idv d) idv =
     map (\<lambda>_. CANCELADA) (filter (\<lambda>v. id_venta v = idv) (Ventas d))"
  by (simp add: estados_venta_def marcar_venta_cancelada_def filter_map o_def)

lemma filter_clave_singular:
  assumes "distinct (map f xs)" "x \<in> set xs"
  shows "filter (\<lambda>y. f y = f x) xs = [x]"
  using assms
proof (induction xs)
  case Nil
  then show ?case by simp
next
  case (Cons a xs)
  show ?case
  proof (cases "a = x")
    case True
    have "f x \<notin> f ` set xs" using Cons.prems(1) True by simp
    then have "filter (\<lambda>y. f y = f x) xs = []"
      by (simp add: filter_empty_conv) (metis imageI)
    with True show ?thesis by simp
  next
    case False
    with Cons.prems have "x \<in> set xs" "f a \<noteq> f x" by auto
    with Cons show ?thesis by simp
  qed
qed


lemma filter_clave_singular_P:
  assumes "distinct (map f xs)" "x \<in> set xs" "P x"
  shows "filter (\<lambda>y. f y = f x \<and> P y) xs = [x]"
proof -
  have "filter (\<lambda>y. f y = f x \<and> P y) xs = filter P (filter (\<lambda>y. f y = f x) xs)"
    by (simp add: conj_commute)
  then show ?thesis using filter_clave_singular[OF assms(1,2)] assms(3) by simp
qed

lemma seleccionar_factura_venta_unica:
  assumes wf: "wf_db d"
    and f: "f \<in> set (Facturas d)" "f_estado f \<noteq> ANULADA"
  obtains v where "v \<in> set (Ventas d)" "id_venta v = f_id_venta f"
    "seleccionar_factura_venta d (id_factura f) = [(f, v)]"
proof -
  from wf f(1) obtain v where v: "v \<in> set (Ventas d)" "id_venta v = f_id_venta f"
    by (auto simp: wf_db_def)
  have df: "distinct (map id_factura (Facturas d))" and dv: "distinct (map id_venta (Ventas d))"
    using wf by (simp_all add: wf_db_def)
  have ok: "f_estado f = EMITIDA \<or> f_estado f = PAGADA"
    using f(2) by (cases "f_estado f") auto
  have 1: "filter (\<lambda>g. id_factura g = id_factura f \<and> (f_estado g = EMITIDA \<or> f_estado g = PAGADA))
             (Facturas d) = [f]"
    using filter_clave_singular_P[OF df f(1), of "\<lambda>g. f_estado g = EMITIDA \<or> f_estado g = PAGADA"] ok
    by simp
  have 2: "filter (\<lambda>w. id_venta w = f_id_venta f) (Ventas d) = [v]"
    using filter_clave_singular[OF dv v(1)] v(2) by simp
  have "seleccionar_factura_venta d (id_factura f) = [(f, v)]"
    by (simp add: seleccionar_factura_venta_def 1 2)
  with v show thesis by (rule that)
qed

lemma anularFactura_exito:
  assumes "seleccionar_factura_venta d idf = (f, v) # rest"
  shows "anularFactura d idf =
     ((if v_estado_venta v = COMPLETADA
       then restaurar_detalles (lineas_venta d (id_venta v))
              (marcar_venta_cancelada (id_venta v) (marcar_factura_anulada idf d))
       else marcar_factura_anulada idf d), Inr idf)"
  using assms
  by (simp add: anularFactura_def transaccion_def anularFactura_cuerpo_def lineas_venta_def Let_def
        marcar_venta_cancelada_def marcar_factura_anulada_def)

lemma anularFactura_casos:
  assumes "anularFactura d idf = (d', r)"
  shows "(d' = d \<and> r = Inl FacturaNoAnulable) \<or>
     (\<exists>f v rest. seleccionar_factura_venta d idf = (f, v) # rest \<and> r = Inr idf \<and>
        d' = (if v_estado_venta v = COMPLETADA
              then restaurar_detalles (lineas_venta d (id_venta v))
                     (marcar_venta_cancelada (id_venta v) (marcar_factura_anulada idf d))
              else marcar_factura_anulada idf d))"
proof (cases "seleccionar_factura_venta d idf")
  case Nil
  then have "anularFactura d idf = (d, Inl FacturaNoAnulable)"
    by (simp add: anularFactura_def transaccion_def anularFactura_cuerpo_def)
  with assms show ?thesis by simp
next
  case (Cons fv rest)
  obtain f v where fv: "fv = (f, v)" by (cases fv)
  from anularFactura_exito[OF Cons[unfolded fv]] assms Cons fv show ?thesis by auto
qed

lemma existencias_anulada:
  "existencias (restaurar_detalles (lineas_venta d idv)
                  (marcar_venta_cancelada idv (marcar_factura_anulada idf d))) =
     map (\<lambda>(i, s). (i, s + vendido d idv i)) (existencias d)"
  by (simp add: existencias_restaurar_detalles vendido_def)
     (simp add: existencias_def marcar_venta_cancelada_def marcar_factura_anulada_def)

lemma estados_anulada:
  "estados_venta (restaurar_detalles ds (marcar_venta_cancelada idv (marcar_factura_anulada idf d))) idv
     = map (\<lambda>_. CANCELADA) (filter (\<lambda>v. id_venta v = idv) (Ventas d))"
  "estados_factura (restaurar_detalles ds (marcar_venta_cancelada idv (marcar_factura_anulada idf d))) idf
     = map (\<lambda>_. ANULADA) (filter (\<lambda>f. id_factura f = idf) (Facturas d))"
  "estados_factura (marcar_factura_anulada idf d) idf
     = map (\<lambda>_. ANULADA) (filter (\<lambda>f. id_factura f = idf) (Facturas d))"
  by (simp_all add: estados_venta_def estados_factura_def restaurar_marco
        marcar_venta_cancelada_def marcar_factura_anulada_def filter_map o_def)


lemma detalles_de_filas_ids:
  "dv \<in> set (detalles_de_filas idv n filas) \<Longrightarrow> dv_id_venta dv = idv"
  by (induction filas arbitrary: n) auto

lemma ids_producto_registrar:
  "map id_producto (Productos (registrar_detalles idv filas d)) = map id_producto (Productos d)"
proof -
  have "map fst (existencias (registrar_detalles idv filas d)) = map fst (existencias d)"
    by (simp add: existencias_registrar o_def split_def)
  then show ?thesis by (simp add: existencias_def o_def)
qed

lemma procesarVenta_wf:
  assumes wf: "wf_db d"
    and ex: "procesarVentaDesdeCarrito d u = (d1, Inr idv)"
  shows "wf_db d1"
proof (rule procesarVenta_exito[OF ex])
  fix c :: carrito
  let ?filas = "seleccionar_productosCarrito d (id_carrito c)"
  let ?tot = "sum_list (map r_subtotal ?filas)"
  assume idv: "idv = sig_id_venta d"
    and d1: "d1 = vaciar_carrito (id_carrito c)
            (registrar_detalles (sig_id_venta d) ?filas (insertar_venta u ?tot d))"
  let ?nv = "\<lparr>id_venta = sig_id_venta d, v_id_usuario = u, total_venta = ?tot,
              v_estado_venta = COMPLETADA\<rparr>"
  have P: "map id_producto (Productos d1) = map id_producto (Productos d)"
    unfolding d1 by (simp add: vaciar_carrito_def ids_producto_registrar insertar_venta_def)
  have C: "Carritos d1 = Carritos d"
    unfolding d1 by (simp add: vaciar_carrito_def registrar_marco insertar_venta_def)
  have PC: "Productos_Carrito d1 =
      filter (\<lambda>pc. pc_id_carrito pc \<noteq> id_carrito c) (Productos_Carrito d)"
    unfolding d1 by (simp add: vaciar_carrito_def registrar_marco insertar_venta_def)
  have V: "Ventas d1 = Ventas d @ [?nv]"
    unfolding d1 by (simp add: vaciar_carrito_def registrar_marco insertar_venta_def)
  have SV: "sig_id_venta d1 = sig_id_venta d + 1"
    unfolding d1 by (simp add: vaciar_carrito_def registrar_marco insertar_venta_def)
  have D: "Detalles_Venta d1 = Detalles_Venta d @
             detalles_de_filas (sig_id_venta d) (sig_id_detalle_venta d) ?filas"
    unfolding d1 by (simp add: vaciar_carrito_def detalles_registrar insertar_venta_def)
  have F: "Facturas d1 = Facturas d" "sig_id_factura d1 = sig_id_factura d"
    unfolding d1 by (simp_all add: vaciar_carrito_def registrar_marco insertar_venta_def)
  have nuevo: "sig_id_venta d \<notin> id_venta ` set (Ventas d)"
    using wf by (auto simp: wf_db_def)
  show "wf_db d1"
    unfolding wf_db_def P C PC V SV D F
    using wf nuevo
    by (auto simp: wf_db_def distinct_map_filter dest: detalles_de_filas_ids)
qed

lemma procesarVenta_venta:
  assumes ex: "procesarVentaDesdeCarrito d u = (d1, Inr idv)"
  obtains nv where "Ventas d1 = Ventas d @ [nv]" "id_venta nv = idv" "v_id_usuario nv = u"
    "v_estado_venta nv = COMPLETADA" "idv = sig_id_venta d"
    "Facturas d1 = Facturas d" "sig_id_factura d1 = sig_id_factura d"
proof (rule procesarVenta_exito[OF ex])
  fix c :: carrito
  let ?filas = "seleccionar_productosCarrito d (id_carrito c)"
  let ?tot = "sum_list (map r_subtotal ?filas)"
  assume idv: "idv = sig_id_venta d"
    and d1: "d1 = vaciar_carrito (id_carrito c)
            (registrar_detalles (sig_id_venta d) ?filas (insertar_venta u ?tot d))"
  show thesis
    by (rule that[of "\<lparr>id_venta = sig_id_venta d, v_id_usuario = u, total_venta = ?tot,
              v_estado_venta = COMPLETADA\<rparr>"])
       (simp_all add: d1 idv vaciar_carrito_def registrar_marco insertar_venta_def)
qed

lemma seleccionar_venta_factura_en:
  "(v, x) \<in> set (seleccionar_venta_factura d idv) \<Longrightarrow>
     v \<in> set (Ventas d) \<and> id_venta v = idv \<and> v_estado_venta v = COMPLETADA"
proof -
  assume "(v, x) \<in> set (seleccionar_venta_factura d idv)"
  then obtain w where "w \<in> set (Ventas d)" "id_venta w = idv" "v_estado_venta w = COMPLETADA"
    "(v, x) \<in> set (case filter (\<lambda>f. f_id_venta f = id_venta w) (Facturas d) of
                      [] \<Rightarrow> [(w, None)]
                    | fs \<Rightarrow> map (\<lambda>f. (w, Some (id_factura f))) fs)"
    by (auto simp: seleccionar_venta_factura_def)
  then show ?thesis
    by (cases "filter (\<lambda>f. f_id_venta f = id_venta w) (Facturas d)") auto
qed

lemma generarFactura_exito:
  assumes "generarFactura d idv a m = (d', Inr idf)"
  obtains v where
    "v \<in> set (Ventas d)" "id_venta v = idv" "v_estado_venta v = COMPLETADA"
    "idf = sig_id_factura d"
    "\<forall>f \<in> set (Facturas d). f_id_venta f \<noteq> idv \<and> numero_factura f \<noteq> generarNumeroFactura d a m"
    "d' = d\<lparr>Facturas := Facturas d @
                     [\<lparr>id_factura = sig_id_factura d, f_id_venta = idv,
                       numero_factura = generarNumeroFactura d a m, monto_total = total_venta v,
                       f_estado = EMITIDA\<rparr>],
                  sig_id_factura := sig_id_factura d + 1\<rparr>"
proof (cases "seleccionar_venta_factura d idv")
  case Nil
  with assms show thesis
    by (simp add: generarFactura_def transaccion_def generarFactura_cuerpo_def)
next
  case (Cons vx rest)
  obtain v x where vx: "vx = (v, x)" by (cases vx)
  have "(v, x) \<in> set (seleccionar_venta_factura d idv)" using Cons vx by simp
  from seleccionar_venta_factura_en[OF this]
  have v: "v \<in> set (Ventas d)" "id_venta v = idv" "v_estado_venta v = COMPLETADA" by auto
  from assms Cons vx have
    "idf = sig_id_factura d \<and>
     (\<forall>f \<in> set (Facturas d). f_id_venta f \<noteq> idv \<and> numero_factura f \<noteq> generarNumeroFactura d a m) \<and>
     d' = d\<lparr>Facturas := Facturas d @
                     [\<lparr>id_factura = sig_id_factura d, f_id_venta = idv,
                       numero_factura = generarNumeroFactura d a m, monto_total = total_venta v,
                       f_estado = EMITIDA\<rparr>],
                  sig_id_factura := sig_id_factura d + 1\<rparr>"
    by (auto simp: generarFactura_def transaccion_def generarFactura_cuerpo_def Let_def
          insertar_factura_def list_ex_iff split: if_splits)
  with v show thesis by (intro that[of v]) auto
qed

lemma generarFactura_wf:
  assumes wf: "wf_db d"
    and ex: "generarFactura d idv a m = (d', Inr idf)"
  shows "wf_db d'"
proof (rule generarFactura_exito[OF ex])
  fix v :: venta
  assume v: "v \<in> set (Ventas d)" "id_venta v = idv"
    and nuevo: "\<forall>f \<in> set (Facturas d). f_id_venta f \<noteq> idv \<and> numero_factura f \<noteq> generarNumeroFactura d a m"
    and d': "d' = d\<lparr>Facturas := Facturas d @
                     [\<lparr>id_factura = sig_id_factura d, f_id_venta = idv,
                       numero_factura = generarNumeroFactura d a m, monto_total = total_venta v,
                       f_estado = EMITIDA\<rparr>],
                  sig_id_factura := sig_id_factura d + 1\<rparr>"
  have "sig_id_factura d \<notin> id_factura ` set (Facturas d)"
    using wf by (auto simp: wf_db_def)
  then show "wf_db d'"
    unfolding d' using wf nuevo v
    by (auto simp: wf_db_def)
qed

lemma cancelar_compensa:
  assumes wf: "wf_db d"
    and v: "v \<in> set (Ventas d)" "v_estado_venta v = COMPLETADA"
  shows "\<exists>d'. cancelarVenta d (id_venta v) (v_id_usuario v) = (d', Inr True)
           \<and> existencias d' = map (\<lambda>(i, s). (i, s + vendido d (id_venta v) i)) (existencias d)
           \<and> estados_venta d' (id_venta v) = [CANCELADA]"
proof -
  have dv: "distinct (map id_venta (Ventas d))" using wf by (simp add: wf_db_def)
  have "estados_venta (marcar_venta_cancelada (id_venta v)
          (restaurar_detalles (lineas_venta d (id_venta v)) d)) (id_venta v) = [CANCELADA]"
    by (simp add: estados_venta_cancelada restaurar_marco filter_clave_singular[OF dv v(1)])
  then show ?thesis
    using cancelarVenta_exito[OF v(1) refl refl v(2)] existencias_compensada by simp
qed

lemma anular_compensa:
  assumes wf: "wf_db d"
    and f: "f \<in> set (Facturas d)" "f_estado f \<noteq> ANULADA"
    and c: "estados_venta d (f_id_venta f) = [COMPLETADA]"
  shows "\<exists>d'. anularFactura d (id_factura f) = (d', Inr (id_factura f))
           \<and> existencias d' = map (\<lambda>(i, s). (i, s + vendido d (f_id_venta f) i)) (existencias d)
           \<and> estados_venta d' (f_id_venta f) = [CANCELADA]
           \<and> estados_factura d' (id_factura f) = [ANULADA]"
proof (rule seleccionar_factura_venta_unica[OF wf f])
  fix v :: venta
  assume v: "v \<in> set (Ventas d)" "id_venta v = f_id_venta f"
    and s: "seleccionar_factura_venta d (id_factura f) = [(f, v)]"
  have dv: "distinct (map id_venta (Ventas d))" and df: "distinct (map id_factura (Facturas d))"
    using wf by (simp_all add: wf_db_def)
  have fv: "filter (\<lambda>w. id_venta w = f_id_venta f) (Ventas d) = [v]"
    using filter_clave_singular[OF dv v(1)] v(2) by simp
  have ff: "filter (\<lambda>g. id_factura g = id_factura f) (Facturas d) = [f]"
    using filter_clave_singular[OF df f(1)] by simp
  have comp: "v_estado_venta v = COMPLETADA"
    using c by (simp add: estados_venta_def fv)
  show ?thesis
    using anularFactura_exito[OF s] comp v(2)
    by (simp add: existencias_anulada estados_anulada fv ff)
qed

lemma vendido_nueva:
  assumes wf: "wf_db d"
    and ex: "procesarVentaDesdeCarrito d u = (d1, Inr idv)"
  shows "map (\<lambda>(i, s). (i, s + vendido d1 idv i)) (existencias d1) = existencias d"
proof -
  from existencias_venta_exito[OF wf ex] obtain filas where
    e: "existencias d1 = map (\<lambda>(i, s). (i, s - pedido filas i)) (existencias d)"
    and p: "\<And>i. vendido d1 idv i = pedido filas i"
    by blast
  have "map (\<lambda>(i, s). (i, s + pedido filas i)) (map (\<lambda>(i, s). (i, s - pedido filas i)) xs) = xs"
    for xs :: "(nat \<times> int) list"
    by (induction xs) auto
  then show ?thesis
    by (simp only: e p)
qed

lemma ida_y_vuelta_cancelar:
  assumes wf: "wf_db d"
    and ex: "procesarVentaDesdeCarrito d u = (d1, Inr idv)"
  shows "\<exists>d2. cancelarVenta d1 idv u = (d2, Inr True) \<and> existencias d2 = existencias d
           \<and> estados_venta d2 idv = [CANCELADA]"
proof -
  from ex obtain nv where nv:
    "Ventas d1 = Ventas d @ [nv]" "id_venta nv = idv" "v_id_usuario nv = u"
    "v_estado_venta nv = COMPLETADA" "idv = sig_id_venta d"
    "Facturas d1 = Facturas d" "sig_id_factura d1 = sig_id_factura d"
    by (rule procesarVenta_venta)
  have "nv \<in> set (Ventas d1)" using nv(1) by simp
  from cancelar_compensa[OF procesarVenta_wf[OF wf ex] this nv(4)]
  obtain d2 where d2: "cancelarVenta d1 idv u = (d2, Inr True)"
    "existencias d2 = map (\<lambda>(i, s). (i, s + vendido d1 idv i)) (existencias d1)"
    "estados_venta d2 idv = [CANCELADA]"
    unfolding nv(2,3) by blast
  have "existencias d2 = existencias d"
    using d2(2) vendido_nueva[OF wf ex] by (simp only:)
  with d2(1,3) show ?thesis by blast
qed

lemma ida_y_vuelta_anular:
  assumes wf: "wf_db d"
    and ex: "procesarVentaDesdeCarrito d u = (d1, Inr idv)"
    and fa: "generarFactura d1 idv a m = (d1', Inr idf)"
  shows "\<exists>d2. anularFactura d1' idf = (d2, Inr idf) \<and> existencias d2 = existencias d
           \<and> estados_venta d2 idv = [CANCELADA] \<and> estados_factura d2 idf = [ANULADA]"
proof (rule generarFactura_exito[OF fa])
  fix v :: venta
  let ?nf = "\<lparr>id_factura = sig_id_factura d1, f_id_venta = idv,
               numero_factura = generarNumeroFactura d1 a m, monto_total = total_venta v,
               f_estado = EMITIDA\<rparr>"
  assume v: "v \<in> set (Ventas d1)" "id_venta v = idv" "v_estado_venta v = COMPLETADA"
    and idf: "idf = sig_id_factura d1"
    and d1': "d1' = d1\<lparr>Facturas := Facturas d1 @ [?nf], sig_id_factura := sig_id_factura d1 + 1\<rparr>"
  have wf1: "wf_db d1" by (rule procesarVenta_wf[OF wf ex])
  have wf1': "wf_db d1'" by (rule generarFactura_wf[OF wf1 fa])
  have dv: "distinct (map id_venta (Ventas d1))" using wf1 by (simp add: wf_db_def)
  have nf: "?nf \<in> set (Facturas d1')" "f_estado ?nf \<noteq> ANULADA" by (simp_all add: d1')
  have ev: "estados_venta d1' (f_id_venta ?nf) = [COMPLETADA]"
    using filter_clave_singular[OF dv v(1)] v(2,3) by (simp add: estados_venta_def d1')
  have same: "existencias d1' = existencias d1" "\<And>i. vendido d1' idv i = vendido d1 idv i"
    by (simp_all add: d1' existencias_def vendido_def lineas_venta_def)
  from anular_compensa[OF wf1' nf ev]
  obtain d2 where d2: "anularFactura d1' idf = (d2, Inr idf)"
    "existencias d2 = map (\<lambda>(i, s). (i, s + vendido d1' idv i)) (existencias d1')"
    "estados_venta d2 idv = [CANCELADA]" "estados_factura d2 idf = [ANULADA]"
    unfolding idf by auto
  have "existencias d2 = existencias d"
    using d2(2) vendido_nueva[OF wf ex] by (simp only: same)
  with d2(1,3,4) show ?thesis by blast
qed


section \<open>Stock conservation\<close>

text \<open>
  A checkout that runs alone. In a store that keeps its keys, a successful checkout
  writes one sale line for each row it has read, with the quantity of the cart line,
  and leaves each product with its stock before minus the quantity that the user's cart
  asks of it; the check of step 3 then keeps a stock that was not negative from
  becoming negative.
\<close>

lemma procesarVenta_exito_filas:
  assumes "procesarVentaDesdeCarrito d u = (d', Inr idv)"
  shows "filas_usuario d u \<noteq> [] \<and> validar_stock (filas_usuario d u) = None
       \<and> idv = sig_id_venta d
       \<and> (\<exists>idCarrito.
            d' = vaciar_carrito idCarrito
                   (registrar_detalles (sig_id_venta d) (filas_usuario d u)
                      (insertar_venta u (sum_list (map r_subtotal (filas_usuario d u))) d)))"
proof (cases "filter (\<lambda>c. c_id_usuario c = u) (Carritos d)")
  case Nil
  with assms show ?thesis
    by (simp add: procesarVentaDesdeCarrito_def transaccion_def procesarVenta_cuerpo_def)
next
  case (Cons c cs)
  then have f: "filas_usuario d u = seleccionar_productosCarrito d (id_carrito c)"
    by (simp add: filas_usuario_def)
  from assms Cons show ?thesis
    unfolding f
    by (auto simp: procesarVentaDesdeCarrito_def transaccion_def procesarVenta_cuerpo_def
        Let_def foldl_total split: if_splits option.splits)
qed

lemma filas_usuario_seleccion:
  "\<exists>idCarrito. filas_usuario d u = seleccionar_productosCarrito d idCarrito
      \<or> filas_usuario d u = []"
  by (cases "filter (\<lambda>c. c_id_usuario c = u) (Carritos d)") (auto simp: filas_usuario_def)

lemma stock_conservation_alone:
  assumes wf: "wf_db d"
    and ex: "procesarVentaDesdeCarrito d idUsuario = (d', Inr idVenta)"
  shows "existencias d' =
           map (\<lambda>(i, s). (i, s - pedido (filas_usuario d idUsuario) i)) (existencias d)"
    and "map (\<lambda>dv. (dv_id_producto dv, dv_cantidad dv)) (lineas_venta d' idVenta) =
           map (\<lambda>r. (r_id_producto r, r_cantidad r)) (filas_usuario d idUsuario)"
    and "vendido d' idVenta i = pedido (filas_usuario d idUsuario) i"
    and "sin_stock_negativo d \<Longrightarrow> sin_stock_negativo d'"
proof -
  let ?filas = "filas_usuario d idUsuario"
  from procesarVenta_exito_filas[OF ex] obtain idCarrito where
    ne: "?filas \<noteq> []" and ok: "validar_stock ?filas = None" and idv: "idVenta = sig_id_venta d"
    and d': "d' = vaciar_carrito idCarrito
                   (registrar_detalles (sig_id_venta d) ?filas
                      (insertar_venta idUsuario (sum_list (map r_subtotal ?filas)) d))"
    by (elim conjE exE)
  show e: "existencias d' = map (\<lambda>(i, s). (i, s - pedido ?filas i)) (existencias d)"
    unfolding d'
    by (simp add: existencias_def vaciar_carrito_def insertar_venta_def
          existencias_registrar[unfolded existencias_def])
  have l: "lineas_venta d' idVenta = detalles_de_filas idVenta (sig_id_detalle_venta d) ?filas"
    using lineas_venta_nueva[OF wf]
    unfolding d' idv lineas_venta_def
    by (simp add: vaciar_carrito_def detalles_registrar insertar_venta_def detalles_de_filas_venta)
  have "map (\<lambda>dv. (dv_id_producto dv, dv_cantidad dv)) (detalles_de_filas v n fs) =
          map (\<lambda>r. (r_id_producto r, r_cantidad r)) fs" for v n fs
    by (induction fs arbitrary: n) auto
  then show "map (\<lambda>dv. (dv_id_producto dv, dv_cantidad dv)) (lineas_venta d' idVenta) =
           map (\<lambda>r. (r_id_producto r, r_cantidad r)) ?filas"
    by (simp add: l)
  show "vendido d' idVenta i = pedido ?filas i"
    by (simp add: vendido_def l detalles_de_filas_cantidad)
  show "sin_stock_negativo d'" if nn: "sin_stock_negativo d"
  proof -
    from ne obtain c where sel: "?filas = seleccionar_productosCarrito d c"
      using filas_usuario_seleccion[of d idUsuario] by auto
    have "0 \<le> s - pedido ?filas i" if "(i, s) \<in> set (existencias d)" for i s
      using pedido_cubierto[OF wf ok[unfolded sel] that] nn that
      by (auto simp: sel sin_stock_negativo_def)
    then show ?thesis unfolding sin_stock_negativo_def e by auto
  qed
qed

lemma stock_conservation_alone_example:
  "procesarVentaDesdeCarrito tienda 7 = (tienda_sin_factura, Inr 1)
   \<and> existencias tienda = [(1, 5), (2, 1)]
   \<and> pedido (filas_usuario tienda 7) 1 = 2 \<and> pedido (filas_usuario tienda 7) 2 = 0
   \<and> existencias tienda_sin_factura = [(1, 3), (2, 1)]"
  by code_simp

text \<open>Run without another request in between, the two steps of a checkout are
  \<open>procesarVentaDesdeCarrito\<close>; and the writing step subtracts what the rows ask
  from whatever the stock is by then, without a second check.\<close>

lemma paso_venta_secuencial:
  "(case paso_venta idUsuario d InicioV of (d1, p) \<Rightarrow> paso_venta idUsuario d1 p) =
   (case procesarVentaDesdeCarrito d idUsuario of (d', r) \<Rightarrow> (d', TerminadaV r))"
proof (cases "filter (\<lambda>c. c_id_usuario c = idUsuario) (Carritos d)")
  case Nil
  then show ?thesis
    by (simp add: procesarVentaDesdeCarrito_def transaccion_def procesarVenta_cuerpo_def)
next
  case (Cons c cs)
  show ?thesis
  proof (cases "seleccionar_productosCarrito d (id_carrito c) = []")
    case True
    with Cons show ?thesis
      by (simp add: procesarVentaDesdeCarrito_def transaccion_def procesarVenta_cuerpo_def)
  next
    case False
    with Cons show ?thesis
      by (cases "validar_stock (seleccionar_productosCarrito d (id_carrito c))")
         (simp_all add: procesarVentaDesdeCarrito_def transaccion_def procesarVenta_cuerpo_def
            Let_def)
  qed
qed

lemma escritura_sin_validar:
  "existencias (fst (paso_venta idUsuario d (Validada idCarrito filas))) =
     map (\<lambda>(i, s). (i, s - pedido filas i)) (existencias d)"
  by (simp add: Let_def existencias_def vaciar_carrito_def insertar_venta_def
        existencias_registrar[unfolded existencias_def])

lemma tienda_dos_carritos_wf: "wf_db tienda_dos_carritos \<and> sin_stock_negativo tienda_dos_carritos"
  by code_simp

text \<open>
  C2. After every successful checkout each sold product's stock is its quantity before
  minus the quantity sold, and no stock quantity is ever below zero. The code misses the
  second part when two checkouts run at the same time. Five tables are in stock; user 7
  asks for two and user 9 for four. When both requests read before either writes, both
  pass the check against the stock of five, both sales are recorded, with two and with
  four tables sold, and the stock of the table is 5 - 2 - 4 = -1. One after the other, the second checkout fails with the
  error for insufficient stock (3 available, 4 requested) and the stock stays 3.
\<close>

theorem concurrent_checkout_negative_stock:
  "existencias tienda_dos_carritos = [(1, 5), (2, 1)]
   \<and> ejecutar_ventas 7 9 [True, False] (tienda_dos_carritos, InicioV, InicioV) =
       (tienda_dos_carritos,
        Validada 1
          [\<lparr>r_id_producto = 1, r_cantidad = 2, r_nombre_producto = ''Mesa'', r_precio = 15000,
            r_stock = 5, r_subtotal = 30000\<rparr>],
        Validada 3
          [\<lparr>r_id_producto = 1, r_cantidad = 4, r_nombre_producto = ''Mesa'', r_precio = 15000,
            r_stock = 5, r_subtotal = 60000\<rparr>])
   \<and> snd (ejecutar_ventas 7 9 [True, False, True, False]
             (tienda_dos_carritos, InicioV, InicioV)) =
       (TerminadaV (Inr 1), TerminadaV (Inr 2))
   \<and> existencias (fst (ejecutar_ventas 7 9 [True, False, True, False]
             (tienda_dos_carritos, InicioV, InicioV))) = [(1, - 1), (2, 1)]
   \<and> vendido (fst (ejecutar_ventas 7 9 [True, False, True, False]
             (tienda_dos_carritos, InicioV, InicioV))) 1 1 = 2
   \<and> vendido (fst (ejecutar_ventas 7 9 [True, False, True, False]
             (tienda_dos_carritos, InicioV, InicioV))) 2 1 = 4
   \<and> snd (ejecutar_ventas 7 9 [True, True, False, False]
             (tienda_dos_carritos, InicioV, InicioV)) =
       (TerminadaV (Inr 1), TerminadaV (Inl (StockInsuficiente ''Mesa'' 3 4)))
   \<and> existencias (fst (ejecutar_ventas 7 9 [True, True, False, False]
             (tienda_dos_carritos, InicioV, InicioV))) = [(1, 3), (2, 1)]"
  by code_simp

section \<open>Compensation\<close>

text \<open>
  C3. In a store that keeps its keys, cancelling a COMPLETADA sale (by its owner) and
  voiding a not yet voided invoice of a COMPLETADA sale both succeed, add to each
  product's stock exactly the quantity that the sale's lines record for it, and leave
  the sale CANCELADA (the invoice ANULADA). Run right after the checkout that made the
  sale, either of them gives every product the stock quantity it had before the sale.
\<close>

theorem compensation_restores_stock:
  assumes "wf_db d"
  shows "(\<forall>v \<in> set (Ventas d). v_estado_venta v = COMPLETADA \<longrightarrow>
            (\<exists>d'. cancelarVenta d (id_venta v) (v_id_usuario v) = (d', Inr True)
               \<and> existencias d' = map (\<lambda>(i, s). (i, s + vendido d (id_venta v) i)) (existencias d)
               \<and> estados_venta d' (id_venta v) = [CANCELADA]))
       \<and> (\<forall>f \<in> set (Facturas d).
            f_estado f \<noteq> ANULADA \<and> estados_venta d (f_id_venta f) = [COMPLETADA] \<longrightarrow>
            (\<exists>d'. anularFactura d (id_factura f) = (d', Inr (id_factura f))
               \<and> existencias d' = map (\<lambda>(i, s). (i, s + vendido d (f_id_venta f) i)) (existencias d)
               \<and> estados_venta d' (f_id_venta f) = [CANCELADA]
               \<and> estados_factura d' (id_factura f) = [ANULADA]))
       \<and> (\<forall>idUsuario d1 idVenta.
            procesarVentaDesdeCarrito d idUsuario = (d1, Inr idVenta) \<longrightarrow>
            (\<exists>d2. cancelarVenta d1 idVenta idUsuario = (d2, Inr True)
               \<and> existencias d2 = existencias d \<and> estados_venta d2 idVenta = [CANCELADA])
            \<and> (\<forall>anio mes d1' idFactura.
                 generarFactura d1 idVenta anio mes = (d1', Inr idFactura) \<longrightarrow>
                 (\<exists>d2. anularFactura d1' idFactura = (d2, Inr idFactura)
                    \<and> existencias d2 = existencias d \<and> estados_venta d2 idVenta = [CANCELADA]
                    \<and> estados_factura d2 idFactura = [ANULADA])))"
proof (intro conjI ballI allI impI)
  fix v assume "v \<in> set (Ventas d)" "v_estado_venta v = COMPLETADA"
  then show "\<exists>d'. cancelarVenta d (id_venta v) (v_id_usuario v) = (d', Inr True)
               \<and> existencias d' = map (\<lambda>(i, s). (i, s + vendido d (id_venta v) i)) (existencias d)
               \<and> estados_venta d' (id_venta v) = [CANCELADA]"
    by (rule cancelar_compensa[OF assms])
next
  fix f assume "f \<in> set (Facturas d)"
    "f_estado f \<noteq> ANULADA \<and> estados_venta d (f_id_venta f) = [COMPLETADA]"
  then show "\<exists>d'. anularFactura d (id_factura f) = (d', Inr (id_factura f))
               \<and> existencias d' = map (\<lambda>(i, s). (i, s + vendido d (f_id_venta f) i)) (existencias d)
               \<and> estados_venta d' (f_id_venta f) = [CANCELADA]
               \<and> estados_factura d' (id_factura f) = [ANULADA]"
    using anular_compensa[OF assms, of f] by simp
next
  fix idUsuario d1 idVenta
  assume "procesarVentaDesdeCarrito d idUsuario = (d1, Inr idVenta)"
  then show "\<exists>d2. cancelarVenta d1 idVenta idUsuario = (d2, Inr True)
               \<and> existencias d2 = existencias d \<and> estados_venta d2 idVenta = [CANCELADA]"
    by (rule ida_y_vuelta_cancelar[OF assms])
next
  fix idUsuario d1 idVenta anio mes d1' idFactura
  assume "procesarVentaDesdeCarrito d idUsuario = (d1, Inr idVenta)"
    "generarFactura d1 idVenta anio mes = (d1', Inr idFactura)"
  then show "\<exists>d2. anularFactura d1' idFactura = (d2, Inr idFactura)
                    \<and> existencias d2 = existencias d \<and> estados_venta d2 idVenta = [CANCELADA]
                    \<and> estados_factura d2 idFactura = [ANULADA]"
    by (rule ida_y_vuelta_anular[OF assms])
qed

theorem compensation_restores_stock_witness:
  "wf_db tienda_vendida
   \<and> estados_venta tienda_vendida 1 = [COMPLETADA]
   \<and> estados_factura tienda_vendida 1 = [EMITIDA]
   \<and> snd (cancelarVenta tienda_vendida 1 7) = Inr True
   \<and> existencias tienda_vendida = [(1, 3), (2, 1)]
   \<and> existencias (fst (cancelarVenta tienda_vendida 1 7)) = [(1, 5), (2, 1)]
   \<and> snd (anularFactura tienda_vendida 1) = Inr 1
   \<and> existencias (fst (anularFactura tienda_vendida 1)) = [(1, 5), (2, 1)]
   \<and> snd (procesarVentaDesdeCarrito tienda_vendida 9) = Inr 2
   \<and> existencias (fst (cancelarVenta (fst (procesarVentaDesdeCarrito tienda_vendida 9)) 2 9))
       = existencias tienda_vendida
   \<and> snd (generarFactura (fst (procesarVentaDesdeCarrito tienda_vendida 9)) 2 2024 11) = Inr 2
   \<and> existencias (fst (anularFactura
         (fst (generarFactura (fst (procesarVentaDesdeCarrito tienda_vendida 9)) 2 2024 11)) 2))
       = existencias tienda_vendida"
proof -
  let ?v = "hd (Ventas tienda_vendida)" and ?f = "hd (Facturas tienda_vendida)"
  let ?d1 = "fst (procesarVentaDesdeCarrito tienda_vendida 9)"
  let ?d1' = "fst (generarFactura ?d1 2 2024 11)"
  have wf: "wf_db tienda_vendida" by code_simp
  have v: "?v \<in> set (Ventas tienda_vendida)" "v_estado_venta ?v = COMPLETADA"
    "id_venta ?v = 1" "v_id_usuario ?v = 7"
    by code_simp+
  have f: "?f \<in> set (Facturas tienda_vendida)" "f_estado ?f \<noteq> ANULADA"
    "estados_venta tienda_vendida (f_id_venta ?f) = [COMPLETADA]"
    "id_factura ?f = 1" "f_id_venta ?f = 1"
    by code_simp+
  have e: "estados_factura tienda_vendida 1 = [EMITIDA]" "existencias tienda_vendida = [(1, 3), (2, 1)]"
    by code_simp+
  have m: "map (\<lambda>(i, s). (i, s + vendido tienda_vendida 1 i)) (existencias tienda_vendida)
             = [(1, 5), (2, 1)]"
    by code_simp
  have s: "snd (procesarVentaDesdeCarrito tienda_vendida 9) = Inr 2" by code_simp
  then have run: "procesarVentaDesdeCarrito tienda_vendida 9 = (?d1, Inr 2)"
    by (metis prod.collapse)
  have g: "snd (generarFactura ?d1 2 2024 11) = Inr 2" by code_simp
  then have gen: "generarFactura ?d1 2 2024 11 = (?d1', Inr 2)"
    by (metis prod.collapse)
  have par: "snd x = r \<and> Q (fst x)" if "\<exists>y. x = (y, r) \<and> Q y"
    for x :: "'a \<times> 'b" and r Q
    using that by auto
  note t = compensation_restores_stock[OF wf]
  note ta = t[THEN conjunct1, THEN bspec, OF v(1), THEN mp, OF v(2), unfolded v(3,4), THEN par]
  note tb = t[THEN conjunct2, THEN conjunct1, THEN bspec, OF f(1), THEN mp, OF conjI[OF f(2,3)],
      unfolded f(4,5), THEN par]
  note tc = t[THEN conjunct2, THEN conjunct2, THEN spec, THEN spec, THEN spec, THEN mp, OF run]
  note tc1 = tc[THEN conjunct1, THEN par]
  note tc2 = tc[THEN conjunct2, THEN spec, THEN spec, THEN spec, THEN spec, THEN mp, OF gen, THEN par]
  have a: "snd (cancelarVenta tienda_vendida 1 7) = Inr True
      \<and> existencias (fst (cancelarVenta tienda_vendida 1 7)) = [(1, 5), (2, 1)]"
    using ta[unfolded m] by simp
  have b: "snd (anularFactura tienda_vendida 1) = Inr 1
      \<and> existencias (fst (anularFactura tienda_vendida 1)) = [(1, 5), (2, 1)]"
    using tb[unfolded m] by simp
  have c: "existencias (fst (cancelarVenta ?d1 2 9)) = existencias tienda_vendida"
    using tc1 by simp
  have d: "existencias (fst (anularFactura ?d1' 2)) = existencias tienda_vendida"
    using tc2 by simp
  from wf f(3,5) e(1,2) s g a b c d show ?thesis by simp
qed

section \<open>Terminal transitions\<close>

lemma tienda_vendida_alcanzable:
  "procesarCompra tienda 7 2024 11 = (tienda_vendida, Inr (1, 1))"
  by code_simp

lemma tienda_anulada_alcanzable:
  "anularFactura tienda_vendida 1 = (tienda_anulada, Inr 1)"
  by code_simp

lemma estados_venta_todos:
  "v \<in> set (Ventas d) \<Longrightarrow> id_venta v = idv \<Longrightarrow> v_estado_venta v \<in> set (estados_venta d idv)"
  by (auto simp: estados_venta_def)

lemma estados_factura_todos:
  "f \<in> set (Facturas d) \<Longrightarrow> id_factura f = idf \<Longrightarrow> f_estado f \<in> set (estados_factura d idf)"
  by (auto simp: estados_factura_def)

text \<open>
  C8. Cancelling a sale that is already CANCELADA fails with the error of
  \<^verbatim>\<open>'Venta no encontrada o no se puede cancelar'\<close>, and voiding an invoice that is
  already ANULADA fails with the error of \<^verbatim>\<open>'Factura no encontrada o no se puede
  anular'\<close>; in both cases the store afterwards is the store before: no stock quantity,
  sale status or invoice status has changed.
\<close>

theorem terminal_transitions_rejected:
  "(estados_venta d idVenta = [CANCELADA] \<longrightarrow>
      cancelarVenta d idVenta idUsuario = (d, Inl VentaNoCancelable))
   \<and> (estados_factura d idFactura = [ANULADA] \<longrightarrow>
      anularFactura d idFactura = (d, Inl FacturaNoAnulable))"
proof (intro conjI impI)
  assume c: "estados_venta d idVenta = [CANCELADA]"
  have "filter (\<lambda>v. id_venta v = idVenta \<and> v_id_usuario v = idUsuario
                      \<and> v_estado_venta v = COMPLETADA) (Ventas d) = []"
    using estados_venta_todos[of _ d idVenta] c by (fastforce simp: filter_empty_conv)
  then show "cancelarVenta d idVenta idUsuario = (d, Inl VentaNoCancelable)"
    by (simp add: cancelarVenta_def transaccion_def cancelarVenta_cuerpo_def)
next
  assume c: "estados_factura d idFactura = [ANULADA]"
  have "filter (\<lambda>f. id_factura f = idFactura \<and> (f_estado f = EMITIDA \<or> f_estado f = PAGADA))
          (Facturas d) = []"
    using estados_factura_todos[of _ d idFactura] c by (fastforce simp: filter_empty_conv)
  then show "anularFactura d idFactura = (d, Inl FacturaNoAnulable)"
    by (simp add: anularFactura_def transaccion_def anularFactura_cuerpo_def
          seleccionar_factura_venta_def)
qed

theorem terminal_transitions_rejected_witness:
  "estados_venta tienda_anulada 1 = [CANCELADA]
   \<and> cancelarVenta tienda_anulada 1 7 = (tienda_anulada, Inl VentaNoCancelable)
   \<and> estados_factura tienda_anulada 1 = [ANULADA]
   \<and> anularFactura tienda_anulada 1 = (tienda_anulada, Inl FacturaNoAnulable)"
proof -
  have a: "estados_venta tienda_anulada 1 = [CANCELADA]" by code_simp
  have b: "estados_factura tienda_anulada 1 = [ANULADA]" by code_simp
  note t = terminal_transitions_rejected[of tienda_anulada 1 7 1]
  from a b t[THEN conjunct1, THEN mp, OF a] t[THEN conjunct2, THEN mp, OF b]
  show ?thesis by (intro conjI)
qed

section \<open>The availability check\<close>







section \<open>Cancellation and the invoice of the sale\<close>

text \<open>
  C5, as the code has it. \<^verbatim>\<open>cancelarCompra\<close> changes no row of \<^verbatim>\<open>Facturas\<close>, whatever
  its outcome: an invoice of the cancelled sale keeps the status it had.
\<close>

theorem cancel_keeps_invoices:
  "Facturas (fst (cancelarCompra d idVenta idUsuario)) = Facturas d"
  by (simp add: cancelarCompra_def cancelarVenta_def transaccion_def cancelarVenta_cuerpo_def
        marcar_venta_cancelada_def restaurar_marco Let_def)

text \<open>
  C5, as the specification states it, fails: after user 7 cancels sale 1, which has
  the issued invoice 1, the sale is CANCELADA and its invoice is still EMITIDA.
\<close>

theorem cancel_voids_invoice_counterexample:
  "estados_venta tienda_vendida 1 = [COMPLETADA]
   \<and> map f_id_venta (Facturas tienda_vendida) = [1]
   \<and> estados_factura tienda_vendida 1 = [EMITIDA]
   \<and> snd (cancelarCompra tienda_vendida 1 7) = Inr True
   \<and> estados_venta (fst (cancelarCompra tienda_vendida 1 7)) 1 = [CANCELADA]
   \<and> map f_id_venta (Facturas (fst (cancelarCompra tienda_vendida 1 7))) = [1]
   \<and> estados_factura (fst (cancelarCompra tienda_vendida 1 7)) 1 = [EMITIDA]"
  by code_simp

section \<open>Total reconciliation\<close>

lemma detalles_de_filas_linea:
  "dv \<in> set (detalles_de_filas idv n filas) \<Longrightarrow>
     \<exists>r \<in> set filas. subtotal_linea dv = r_subtotal r \<and> dv_cantidad dv = r_cantidad r
        \<and> precio_unitario dv = r_precio r"
  by (induction filas arbitrary: n) auto

lemma filas_subtotal:
  "r \<in> set (seleccionar_productosCarrito d idCarrito) \<Longrightarrow> r_subtotal r = r_cantidad r * r_precio r"
  by (auto simp: seleccionar_productosCarrito_def fila_de_def)

lemma venta_total:
  assumes wf: "wf_db d"
    and ex: "procesarVentaDesdeCarrito d u = (d', Inr idv)"
  shows "map total_venta (filter (\<lambda>v. id_venta v = idv) (Ventas d'))
           = [sum_list (map subtotal_linea (lineas_venta d' idv))]
         \<and> list_all (\<lambda>dv. subtotal_linea dv = dv_cantidad dv * precio_unitario dv)
              (lineas_venta d' idv)"
proof (rule procesarVenta_exito[OF ex])
  fix c :: carrito
  let ?filas = "seleccionar_productosCarrito d (id_carrito c)"
  let ?tot = "sum_list (map r_subtotal ?filas)"
  assume idv: "idv = sig_id_venta d"
    and d': "d' = vaciar_carrito (id_carrito c)
            (registrar_detalles (sig_id_venta d) ?filas (insertar_venta u ?tot d))"
  have viejas: "filter (\<lambda>v. id_venta v = sig_id_venta d) (Ventas d) = []"
    using wf by (auto simp: wf_db_def filter_empty_conv)
  have V: "map total_venta (filter (\<lambda>v. id_venta v = idv) (Ventas d')) = [?tot]"
    unfolding d' idv
    by (simp add: vaciar_carrito_def registrar_marco insertar_venta_def viejas)
  have L: "lineas_venta d' idv = detalles_de_filas idv (sig_id_detalle_venta d) ?filas"
    using lineas_venta_nueva[OF wf]
    unfolding d' idv lineas_venta_def
    by (simp add: vaciar_carrito_def detalles_registrar insertar_venta_def detalles_de_filas_venta)
  have "subtotal_linea dv = dv_cantidad dv * precio_unitario dv"
    if "dv \<in> set (lineas_venta d' idv)" for dv
    using detalles_de_filas_linea[OF that[unfolded L]] filas_subtotal by fastforce
  then show ?thesis
    by (simp add: V L detalles_de_filas_subtotal list_all_iff)
qed

lemma factura_monto:
  assumes wf: "wf_db d"
    and ex: "generarFactura d idv a m = (d', Inr idf)"
  shows "map f_id_venta (filter (\<lambda>f. id_factura f = idf) (Facturas d')) = [idv]
       \<and> estados_factura d' idf = [EMITIDA]
       \<and> map monto_total (filter (\<lambda>f. id_factura f = idf) (Facturas d'))
           = map total_venta (filter (\<lambda>v. id_venta v = idv) (Ventas d'))"
proof (rule generarFactura_exito[OF ex])
  fix v :: venta
  let ?nf = "\<lparr>id_factura = sig_id_factura d, f_id_venta = idv,
               numero_factura = generarNumeroFactura d a m, monto_total = total_venta v,
               f_estado = EMITIDA\<rparr>"
  assume v: "v \<in> set (Ventas d)" "id_venta v = idv"
    and idf: "idf = sig_id_factura d"
    and d': "d' = d\<lparr>Facturas := Facturas d @ [?nf], sig_id_factura := sig_id_factura d + 1\<rparr>"
  have dv: "distinct (map id_venta (Ventas d))" using wf by (simp add: wf_db_def)
  have fv: "filter (\<lambda>w. id_venta w = idv) (Ventas d) = [v]"
    using filter_clave_singular[OF dv v(1)] v(2) by simp
  have viejas: "filter (\<lambda>f. id_factura f = sig_id_factura d) (Facturas d) = []"
    using wf by (auto simp: wf_db_def filter_empty_conv)
  show ?thesis
    unfolding d' idf by (simp add: viejas fv estados_factura_def)
qed

lemma tienda_sin_factura_alcanzable:
  "procesarVentaDesdeCarrito tienda 7 = (tienda_sin_factura, Inr 1)"
  by code_simp

lemma tienda_vendida_facturada:
  "generarFactura tienda_sin_factura 1 2024 11 = (tienda_vendida, Inr 1)"
  by code_simp

text \<open>
  C6. In a store that keeps its keys, the sale that a successful checkout creates has
  as its total the sum of the subtotals of its lines, and each line's subtotal is its
  quantity times its unit price; and the invoice that a successful issuance creates
  references the sale, is EMITIDA, and has as its amount the total of that sale.
\<close>

theorem total_reconciliation:
  assumes "wf_db d"
  shows "(\<forall>idUsuario d' idVenta.
            procesarVentaDesdeCarrito d idUsuario = (d', Inr idVenta) \<longrightarrow>
            map total_venta (filter (\<lambda>v. id_venta v = idVenta) (Ventas d'))
              = [sum_list (map subtotal_linea (lineas_venta d' idVenta))]
            \<and> list_all (\<lambda>dv. subtotal_linea dv = dv_cantidad dv * precio_unitario dv)
                 (lineas_venta d' idVenta))
       \<and> (\<forall>idVenta anio mes d' idFactura.
            generarFactura d idVenta anio mes = (d', Inr idFactura) \<longrightarrow>
            map f_id_venta (filter (\<lambda>f. id_factura f = idFactura) (Facturas d')) = [idVenta]
            \<and> estados_factura d' idFactura = [EMITIDA]
            \<and> map monto_total (filter (\<lambda>f. id_factura f = idFactura) (Facturas d'))
                = map total_venta (filter (\<lambda>v. id_venta v = idVenta) (Ventas d')))"
proof (intro conjI allI impI)
  fix idUsuario d' idVenta
  assume ex: "procesarVentaDesdeCarrito d idUsuario = (d', Inr idVenta)"
  note venta_total[OF assms ex]
  then show "map total_venta (filter (\<lambda>v. id_venta v = idVenta) (Ventas d'))
              = [sum_list (map subtotal_linea (lineas_venta d' idVenta))]"
    and "list_all (\<lambda>dv. subtotal_linea dv = dv_cantidad dv * precio_unitario dv)
                 (lineas_venta d' idVenta)"
    by (rule conjunct1, rule conjunct2)
next
  fix idVenta anio mes d' idFactura
  assume ex: "generarFactura d idVenta anio mes = (d', Inr idFactura)"
  note t = factura_monto[OF assms ex]
  show "map f_id_venta (filter (\<lambda>f. id_factura f = idFactura) (Facturas d')) = [idVenta]"
    by (rule t[THEN conjunct1])
  show "estados_factura d' idFactura = [EMITIDA]"
    by (rule t[THEN conjunct2, THEN conjunct1])
  show "map monto_total (filter (\<lambda>f. id_factura f = idFactura) (Facturas d'))
                = map total_venta (filter (\<lambda>v. id_venta v = idVenta) (Ventas d'))"
    by (rule t[THEN conjunct2, THEN conjunct2])
qed

theorem total_reconciliation_witness:
  "wf_db tienda
   \<and> procesarVentaDesdeCarrito tienda 7 = (tienda_sin_factura, Inr 1)
   \<and> map total_venta (filter (\<lambda>v. id_venta v = 1) (Ventas tienda_sin_factura))
       = [sum_list (map subtotal_linea (lineas_venta tienda_sin_factura 1))]
   \<and> map total_venta (filter (\<lambda>v. id_venta v = 1) (Ventas tienda_sin_factura)) = [30000]
   \<and> wf_db tienda_sin_factura
   \<and> generarFactura tienda_sin_factura 1 2024 11 = (tienda_vendida, Inr 1)
   \<and> map monto_total (filter (\<lambda>f. id_factura f = 1) (Facturas tienda_vendida))
       = map total_venta (filter (\<lambda>v. id_venta v = 1) (Ventas tienda_vendida))
   \<and> map monto_total (filter (\<lambda>f. id_factura f = 1) (Facturas tienda_vendida)) = [30000]"
proof -
  have wf: "wf_db tienda" and wf1: "wf_db tienda_sin_factura" by code_simp+
  have run: "procesarVentaDesdeCarrito tienda 7 = (tienda_sin_factura, Inr 1)" by code_simp
  have gen: "generarFactura tienda_sin_factura 1 2024 11 = (tienda_vendida, Inr 1)" by code_simp
  note p1 = total_reconciliation[OF wf, THEN conjunct1, THEN spec, THEN spec, THEN spec,
      THEN mp, OF run, THEN conjunct1]
  note p2 = total_reconciliation[OF wf1, THEN conjunct2, THEN spec, THEN spec, THEN spec,
      THEN spec, THEN spec, THEN mp, OF gen, THEN conjunct2, THEN conjunct2]
  have v: "map total_venta (filter (\<lambda>v. id_venta v = 1) (Ventas tienda_sin_factura)) = [30000]"
    "map monto_total (filter (\<lambda>f. id_factura f = 1) (Facturas tienda_vendida)) = [30000]"
    by code_simp+
  from wf run p1 v(1) wf1 gen p2 v(2) show ?thesis by (intro conjI)
qed

section \<open>Deleting an invoice\<close>

lemma eliminarFactura_exito:
  assumes "f \<in> set (Facturas d)"
  shows "eliminarFactura d (id_factura f) =
           (d\<lparr>Facturas := filter (\<lambda>g. id_factura g \<noteq> id_factura f) (Facturas d)\<rparr>, Inr True)"
proof -
  have "f \<in> set (filter (\<lambda>g. id_factura g = id_factura f) (Facturas d))"
    using assms by simp
  then have "filter (\<lambda>g. id_factura g = id_factura f) (Facturas d) \<noteq> []"
    by (metis empty_iff empty_set)
  then show ?thesis
    by (simp add: eliminarFactura_def transaccion_def eliminarFactura_cuerpo_def)
qed

lemma facturas_sin:
  assumes wf: "wf_db d" and f: "f \<in> set (Facturas d)"
  shows "set (filter (\<lambda>g. id_factura g \<noteq> id_factura f) (Facturas d)) = set (Facturas d) - {f}"
    and "\<forall>g \<in> set (filter (\<lambda>g. id_factura g \<noteq> id_factura f) (Facturas d)).
           f_id_venta g \<noteq> f_id_venta f"
proof -
  have di: "distinct (map id_factura (Facturas d))" and dv: "distinct (map f_id_venta (Facturas d))"
    using wf by (simp_all add: wf_db_def)
  have i: "g = f" if "g \<in> set (Facturas d)" "id_factura g = id_factura f" for g
    using di that f by (meson distinct_map inj_onD)
  have v: "g = f" if "g \<in> set (Facturas d)" "f_id_venta g = f_id_venta f" for g
    using dv that f by (meson distinct_map inj_onD)
  show "set (filter (\<lambda>g. id_factura g \<noteq> id_factura f) (Facturas d)) = set (Facturas d) - {f}"
    using i by auto
  show "\<forall>g \<in> set (filter (\<lambda>g. id_factura g \<noteq> id_factura f) (Facturas d)).
           f_id_venta g \<noteq> f_id_venta f"
    using v by auto
qed

lemma seleccionar_venta_sin_factura:
  assumes "\<forall>g \<in> set (Facturas d). f_id_venta g \<noteq> idv"
  shows "seleccionar_venta_factura d idv =
           map (\<lambda>v. (v, None))
             (filter (\<lambda>v. id_venta v = idv \<and> v_estado_venta v = COMPLETADA) (Ventas d))"
proof -
  have vacio: "filter (\<lambda>g. f_id_venta g = idv) (Facturas d) = []"
    using assms by (auto simp: filter_empty_conv)
  have "concat (map (\<lambda>v. case filter (\<lambda>f. f_id_venta f = id_venta v) (Facturas d) of
                          [] \<Rightarrow> [(v, None)]
                        | fs \<Rightarrow> map (\<lambda>f. (v, Some (id_factura f))) fs)
               (filter (\<lambda>v. id_venta v = idv \<and> v_estado_venta v = COMPLETADA) vs))
        = map (\<lambda>v. (v, None))
               (filter (\<lambda>v. id_venta v = idv \<and> v_estado_venta v = COMPLETADA) vs)"
    for vs :: "venta list"
    by (induction vs) (simp_all add: vacio)
  then show ?thesis
    by (simp add: seleccionar_venta_factura_def)
qed

lemma generarFactura_sin_factura:
  assumes libre: "\<forall>g \<in> set (Facturas d). f_id_venta g \<noteq> idv"
  shows "snd (generarFactura d idv a m) \<noteq> Inl VentaYaFacturada"
    and "estados_venta d idv = [CANCELADA] \<Longrightarrow> generarFactura d idv a m = (d, Inl VentaNoCompletada)"
    and "estados_venta d idv = [COMPLETADA] \<Longrightarrow>
           generarNumeroFactura d a m \<notin> numero_factura ` set (Facturas d) \<Longrightarrow>
           snd (generarFactura d idv a m) = Inr (sig_id_factura d)"
proof -
  let ?vs = "filter (\<lambda>v. id_venta v = idv \<and> v_estado_venta v = COMPLETADA) (Ventas d)"
  note s = seleccionar_venta_sin_factura[OF libre]
  show "snd (generarFactura d idv a m) \<noteq> Inl VentaYaFacturada"
    by (cases ?vs)
       (auto simp: generarFactura_def transaccion_def generarFactura_cuerpo_def s tiene_factura_def
          insertar_factura_def Let_def split: if_splits)
  {
    assume c: "estados_venta d idv = [CANCELADA]"
    have "?vs = []"
      using estados_venta_todos[of _ d idv] c by (fastforce simp: filter_empty_conv)
    then show "generarFactura d idv a m = (d, Inl VentaNoCompletada)"
      by (simp add: generarFactura_def transaccion_def generarFactura_cuerpo_def s)
  }
  {
    assume c: "estados_venta d idv = [COMPLETADA]"
      and n: "generarNumeroFactura d a m \<notin> numero_factura ` set (Facturas d)"
    from c obtain v where v: "filter (\<lambda>v. id_venta v = idv) (Ventas d) = [v]"
      "v_estado_venta v = COMPLETADA"
      by (auto simp: estados_venta_def)
    have "?vs = filter (\<lambda>v. v_estado_venta v = COMPLETADA) (filter (\<lambda>v. id_venta v = idv) (Ventas d))"
      by (simp add: conj_commute)
    then have vs: "?vs = [v]" using v by simp
    have "\<not> list_ex (\<lambda>f. f_id_venta f = idv \<or> numero_factura f = generarNumeroFactura d a m) (Facturas d)"
      using libre n by (force simp: list_ex_iff)
    then show "snd (generarFactura d idv a m) = Inr (sig_id_factura d)"
      by (simp add: generarFactura_def transaccion_def generarFactura_cuerpo_def s vs
            tiene_factura_def insertar_factura_def Let_def)
  }
qed

lemma resultado_unico:
  "\<exists>y. x = (y, r) \<and> Q y \<Longrightarrow> snd x = r \<and> Q (fst x)"
  by auto

text \<open>
  C10, as the code has it. In a store that keeps its keys, deleting an existing invoice,
  whatever its status, succeeds and removes that row of \<^verbatim>\<open>Facturas\<close> and nothing else:
  sales, sale lines, products and carts are as before. Afterwards the guard against a
  second invoice does not fire for the sale. Issuing an invoice for it succeeds when the
  sale is COMPLETADA and the generated number is not in use, and fails with the error
  for a sale that is not found or not completed when the sale is CANCELADA, as it is
  after its invoice was voided.
\<close>

theorem delete_invoice_frame:
  assumes "wf_db d" and "f \<in> set (Facturas d)"
  shows "\<exists>d'. eliminarFactura d (id_factura f) = (d', Inr True)
           \<and> set (Facturas d') = set (Facturas d) - {f}
           \<and> Ventas d' = Ventas d \<and> Detalles_Venta d' = Detalles_Venta d
           \<and> Productos d' = Productos d
           \<and> Carritos d' = Carritos d \<and> Productos_Carrito d' = Productos_Carrito d
           \<and> snd (generarFactura d' (f_id_venta f) anio mes) \<noteq> Inl VentaYaFacturada
           \<and> (estados_venta d (f_id_venta f) = [COMPLETADA]
                \<and> generarNumeroFactura d' anio mes \<notin> numero_factura ` set (Facturas d')
              \<longrightarrow> snd (generarFactura d' (f_id_venta f) anio mes) = Inr (sig_id_factura d))
           \<and> (estados_venta d (f_id_venta f) = [CANCELADA]
              \<longrightarrow> generarFactura d' (f_id_venta f) anio mes = (d', Inl VentaNoCompletada))"
proof -
  let ?d' = "d\<lparr>Facturas := filter (\<lambda>g. id_factura g \<noteq> id_factura f) (Facturas d)\<rparr>"
  have libre: "\<forall>g \<in> set (Facturas ?d'). f_id_venta g \<noteq> f_id_venta f"
    using facturas_sin(2)[OF assms] by simp
  have ev: "estados_venta ?d' (f_id_venta f) = estados_venta d (f_id_venta f)"
    by (simp add: estados_venta_def)
  note g = generarFactura_sin_factura[OF libre, of anio mes, unfolded ev]
  have "eliminarFactura d (id_factura f) = (?d', Inr True)"
    by (rule eliminarFactura_exito[OF assms(2)])
  moreover have "set (Facturas ?d') = set (Facturas d) - {f}"
    using facturas_sin(1)[OF assms] by simp
  moreover have "snd (generarFactura ?d' (f_id_venta f) anio mes) \<noteq> Inl VentaYaFacturada"
    by (rule g(1))
  moreover have "estados_venta d (f_id_venta f) = [COMPLETADA]
                \<and> generarNumeroFactura ?d' anio mes \<notin> numero_factura ` set (Facturas ?d')
              \<longrightarrow> snd (generarFactura ?d' (f_id_venta f) anio mes) = Inr (sig_id_factura d)"
    using g(3) by simp
  moreover have "estados_venta d (f_id_venta f) = [CANCELADA]
              \<longrightarrow> generarFactura ?d' (f_id_venta f) anio mes = (?d', Inl VentaNoCompletada)"
    using g(2) by simp
  ultimately show ?thesis
    by (intro exI[of _ ?d']) simp
qed

theorem delete_invoice_frame_witness:
  "wf_db tienda_vendida
   \<and> estados_factura tienda_vendida 1 = [EMITIDA]
   \<and> snd (eliminarFactura tienda_vendida 1) = Inr True
   \<and> Facturas (fst (eliminarFactura tienda_vendida 1)) = []
   \<and> Ventas (fst (eliminarFactura tienda_vendida 1)) = Ventas tienda_vendida
   \<and> Productos (fst (eliminarFactura tienda_vendida 1)) = Productos tienda_vendida
   \<and> snd (generarFactura (fst (eliminarFactura tienda_vendida 1)) 1 2024 11) = Inr 2
   \<and> wf_db tienda_anulada
   \<and> estados_factura tienda_anulada 1 = [ANULADA]
   \<and> snd (eliminarFactura tienda_anulada 1) = Inr True
   \<and> snd (generarFactura (fst (eliminarFactura tienda_anulada 1)) 1 2024 11)
       = Inl VentaNoCompletada"
proof -
  let ?f = "\<lparr>id_factura = 1, f_id_venta = 1, numero_factura = ''2024110001'',
             monto_total = 30000, f_estado = EMITIDA\<rparr>"
  let ?g = "\<lparr>id_factura = 1, f_id_venta = 1, numero_factura = ''2024110001'',
             monto_total = 30000, f_estado = ANULADA\<rparr>"
  let ?d = "fst (eliminarFactura tienda_vendida 1)"
  let ?e = "fst (eliminarFactura tienda_anulada 1)"
  have wf: "wf_db tienda_vendida" and wfa: "wf_db tienda_anulada" by code_simp+
  have f: "?f \<in> set (Facturas tienda_vendida)" and g: "?g \<in> set (Facturas tienda_anulada)"
    by code_simp+
  have ef: "estados_factura tienda_vendida 1 = [EMITIDA]"
    and eg: "estados_factura tienda_anulada 1 = [ANULADA]"
    and vacia: "Facturas ?d = []"
    by code_simp+
  have c: "estados_venta tienda_vendida 1 = [COMPLETADA]
           \<and> generarNumeroFactura ?d 2024 11 \<notin> numero_factura ` set (Facturas ?d)"
    by code_simp
  have k: "estados_venta tienda_anulada 1 = [CANCELADA]" by code_simp
  have s: "sig_id_factura tienda_vendida = 2" by code_simp
  note t = delete_invoice_frame[OF wf f, of 2024 11, THEN resultado_unico, simplified]
  note u = delete_invoice_frame[OF wfa g, of 2024 11, THEN resultado_unico, simplified]
  have 1: "snd (eliminarFactura tienda_vendida 1) = Inr True"
    and 2: "Ventas ?d = Ventas tienda_vendida" and 3: "Productos ?d = Productos tienda_vendida"
    using t by simp_all
  have 4: "snd (generarFactura ?d 1 2024 11) = Inr 2"
    using t c s by simp
  have 5: "snd (eliminarFactura tienda_anulada 1) = Inr True"
    using u by simp
  have 6: "snd (generarFactura ?e 1 2024 11) = Inl VentaNoCompletada"
    using u k by simp
  from wf ef 1 vacia 2 3 4 wfa eg 5 6 show ?thesis by (intro conjI)
qed

text \<open>
  C10, as it is stated, fails for an invoice that was voided: voiding invoice 1 has
  cancelled sale 1, and after the invoice is deleted no new invoice can be issued for
  that sale.
\<close>

theorem delete_then_reissue_counterexample:
  "estados_factura tienda_anulada 1 = [ANULADA]
   \<and> map f_id_venta (Facturas tienda_anulada) = [1]
   \<and> snd (eliminarFactura tienda_anulada 1) = Inr True
   \<and> Facturas (fst (eliminarFactura tienda_anulada 1)) = []
   \<and> snd (generarFactura (fst (eliminarFactura tienda_anulada 1)) 1 2024 11)
       = Inl VentaNoCompletada"
  by code_simp

section \<open>The invoice number\<close>

text \<open>
  While the numbers of the period are the prefix of the period followed by four digits,
  the order of the strings is the order of the sequences, and the generated number is
  the prefix with the greatest sequence plus one; with no number in the period it is
  the prefix with 0001.
\<close>

lemma digito_menor_10:
  assumes "a < 10"
  shows "of_char (digito a) = (48 + a :: nat)" "es_digito (digito a)" "valor_digito (digito a) = a"
proof -
  from assms have "a = 0 \<or> a = 1 \<or> a = 2 \<or> a = 3 \<or> a = 4 \<or> a = 5 \<or> a = 6 \<or> a = 7 \<or> a = 8 \<or> a = 9"
    by arith
  then show "of_char (digito a) = (48 + a :: nat)" "es_digito (digito a)" "valor_digito (digito a) = a"
    by (elim disjE; simp add: digito_def es_digito_def valor_digito_def)+
qed

lemma digito_iny:
  "a < 10 \<Longrightarrow> b < 10 \<Longrightarrow> digito a = digito b \<longleftrightarrow> a = b"
  by (metis add_left_cancel digito_menor_10(1))

lemma String_nat_1: "n < 10 \<Longrightarrow> String_nat n = [digito n]"
  by (subst String_nat.simps) simp

lemma String_nat_2:
  "\<not> n < 10 \<Longrightarrow> n < 100 \<Longrightarrow> String_nat n = [digito (n div 10), digito (n mod 10)]"
  by (subst String_nat.simps) (simp add: String_nat_1)

lemma String_nat_3:
  "\<not> n < 100 \<Longrightarrow> n < 1000 \<Longrightarrow>
     String_nat n = [digito (n div 100), digito (n div 10 mod 10), digito (n mod 10)]"
  by (subst String_nat.simps) (simp add: String_nat_2 div_mult2_eq[symmetric])

lemma String_nat_4:
  "\<not> n < 1000 \<Longrightarrow> n < 10000 \<Longrightarrow>
     String_nat n = [digito (n div 1000), digito (n div 100 mod 10), digito (n div 10 mod 10),
                     digito (n mod 10)]"
  by (subst String_nat.simps) (simp add: String_nat_3 div_mult2_eq[symmetric])

lemma secuencia_cuatro:
  assumes "k < 10000"
  shows "padStart 4 CHR ''0'' (String_nat k) =
           [digito (k div 1000), digito (k div 100 mod 10), digito (k div 10 mod 10),
            digito (k mod 10)]"
proof -
  have z: "digito 0 = CHR ''0''" by (simp add: digito_def)
  have r: "replicate 3 c = [c, c, c]" "replicate 2 c = [c, c]" for c :: char
    by (simp_all add: numeral_eq_Suc)
  consider "k < 10" | "\<not> k < 10" "k < 100" | "\<not> k < 100" "k < 1000" | "\<not> k < 1000"
    by blast
  then show ?thesis
  proof cases
    case 1
    then show ?thesis by (simp add: String_nat_1 padStart_def z r)
  next
    case 2
    then show ?thesis by (simp add: String_nat_2 padStart_def z r)
  next
    case 3
    then show ?thesis by (simp add: String_nat_3 padStart_def z r)
  next
    case 4
    then show ?thesis using assms by (simp add: String_nat_4 padStart_def)
  qed
qed


lemma cuatro_cifras:
  "(k::nat) = 1000 * (k div 1000) + 100 * (k div 100 mod 10) + 10 * (k div 10 mod 10) + k mod 10"
proof -
  have a: "k = 10 * (k div 10) + k mod 10" by simp
  have "k div 100 = k div 10 div 10" "k div 1000 = k div 100 div 10"
    by (simp_all add: div_mult2_eq[symmetric])
  then have b: "k div 10 = 10 * (k div 100) + k div 10 mod 10"
    and c: "k div 100 = 10 * (k div 1000) + k div 100 mod 10"
    by simp_all
  from a b c show ?thesis by linarith
qed

lemma orden_cuatro_cifras:
  fixes j3 j2 j1 j0 k3 k2 k1 k0 :: nat
  assumes "j2 < 10" "j1 < 10" "j0 < 10" "k2 < 10" "k1 < 10" "k0 < 10"
  shows "(j3 < k3 \<or> j3 = k3 \<and> (j2 < k2 \<or> j2 = k2 \<and> (j1 < k1 \<or> j1 = k1 \<and> j0 < k0)))
         \<longleftrightarrow> 1000 * j3 + 100 * j2 + 10 * j1 + j0 < 1000 * k3 + 100 * k2 + 10 * k1 + k0"
  using assms by arith

lemma cadena_menor_prefijo: "cadena_menor (p @ a) (p @ b) = cadena_menor a b"
  by (induction p) auto

lemma cadena_menor_cuatro:
  assumes "j < 10000" "k < 10000"
  shows "cadena_menor (padStart 4 CHR ''0'' (String_nat j)) (padStart 4 CHR ''0'' (String_nat k))
           \<longleftrightarrow> j < k"
proof -
  define j3 j2 j1 j0 where "j3 = j div 1000" and "j2 = j div 100 mod 10"
    and "j1 = j div 10 mod 10" and "j0 = j mod 10"
  define k3 k2 k1 k0 where "k3 = k div 1000" and "k2 = k div 100 mod 10"
    and "k1 = k div 10 mod 10" and "k0 = k mod 10"
  have dj: "j3 < 10" "j2 < 10" "j1 < 10" "j0 < 10"
    and dk: "k3 < 10" "k2 < 10" "k1 < 10" "k0 < 10"
    using assms by (simp_all add: j3_def j2_def j1_def j0_def k3_def k2_def k1_def k0_def
        less_mult_imp_div_less)
  have j: "j = 1000 * j3 + 100 * j2 + 10 * j1 + j0"
    unfolding j3_def j2_def j1_def j0_def by (rule cuatro_cifras)
  have k: "k = 1000 * k3 + 100 * k2 + 10 * k1 + k0"
    unfolding k3_def k2_def k1_def k0_def by (rule cuatro_cifras)
  have "cadena_menor [digito j3, digito j2, digito j1, digito j0]
          [digito k3, digito k2, digito k1, digito k0]
        \<longleftrightarrow> (j3 < k3 \<or> j3 = k3 \<and> (j2 < k2 \<or> j2 = k2 \<and> (j1 < k1 \<or> j1 = k1 \<and> j0 < k0)))"
    using dj dk by (simp add: digito_menor_10(1) digito_iny)
  also have "\<dots> \<longleftrightarrow> j < k"
    unfolding j k using dj dk by (intro orden_cuatro_cifras)
  finally show ?thesis
    by (simp add: secuencia_cuatro[OF assms(1)] secuencia_cuatro[OF assms(2)]
          j3_def j2_def j1_def j0_def k3_def k2_def k1_def k0_def)
qed

lemma parseInt_cuatro:
  assumes "k < 10000"
  shows "parseInt (padStart 4 CHR ''0'' (String_nat k)) = Some k"
proof -
  have d: "k div 1000 < 10" "k div 100 mod 10 < 10" "k div 10 mod 10 < 10" "k mod 10 < 10"
    using assms by (simp_all add: less_mult_imp_div_less)
  have "k = 1000 * (k div 1000) + 100 * (k div 100 mod 10) + 10 * (k div 10 mod 10) + k mod 10"
    by (rule cuatro_cifras)
  then show ?thesis
    by (simp add: secuencia_cuatro[OF assms] parseInt_def digito_menor_10[OF d(1)]
          digito_menor_10[OF d(2)] digito_menor_10[OF d(3)] digito_menor_10[OF d(4)])
qed

lemma primera_desc_max:
  assumes "\<And>j k. j \<in> set ks \<Longrightarrow> k \<in> set ks \<Longrightarrow> cadena_menor (f j) (f k) \<longleftrightarrow> j < k"
    and "ks \<noteq> []"
  shows "primera_desc (map f ks) = Some (f (Max (set ks)))"
  using assms
proof (induction ks)
  case Nil
  then show ?case by simp
next
  case (Cons x xs)
  show ?case
  proof (cases "xs = []")
    case True
    then show ?thesis by simp
  next
    case False
    have ih: "primera_desc (map f xs) = Some (f (Max (set xs)))"
      using Cons.IH Cons.prems(1) False by simp
    have m: "Max (set xs) \<in> set xs" using False by simp
    have "cadena_menor (f x) (f (Max (set xs))) \<longleftrightarrow> x < Max (set xs)"
      using Cons.prems(1)[of x "Max (set xs)"] m by simp
    then show ?thesis
      using False by (auto simp: ih max_def)
  qed
qed

lemma longitud_cuatro: "k < 10000 \<Longrightarrow> length (padStart 4 CHR ''0'' (String_nat k)) = 4"
  by (simp add: secuencia_cuatro)

lemma generarNumeroFactura_primera:
  assumes "filter (como_prefijo (prefijo_periodo anio mes)) (map numero_factura (Facturas d)) = []"
  shows "generarNumeroFactura d anio mes = prefijo_periodo anio mes @ ''0001''"
proof -
  have "padStart 4 CHR ''0'' (String_nat 1) = ''0001''"
    by (simp add: secuencia_cuatro digito_def)
  then show ?thesis
    using assms by (simp add: generarNumeroFactura_def String_num_def Let_def)
qed

lemma generarNumeroFactura_siguiente:
  assumes per: "filter (como_prefijo (prefijo_periodo anio mes)) (map numero_factura (Facturas d))
             = map (\<lambda>k. prefijo_periodo anio mes @ padStart 4 CHR ''0'' (String_nat k)) ks"
    and ks: "ks \<noteq> []" "\<And>k. k \<in> set ks \<Longrightarrow> k < 10000"
  shows "generarNumeroFactura d anio mes =
           prefijo_periodo anio mes @ padStart 4 CHR ''0'' (String_nat (Max (set ks) + 1))"
proof -
  let ?P = "prefijo_periodo anio mes"
  let ?m = "Max (set ks)"
  have m: "?m \<in> set ks" using ks(1) by simp
  have u: "primera_desc (map (\<lambda>k. ?P @ padStart 4 CHR ''0'' (String_nat k)) ks)
             = Some (?P @ padStart 4 CHR ''0'' (String_nat ?m))"
    by (rule primera_desc_max) (simp_all add: cadena_menor_prefijo cadena_menor_cuatro ks)
  have s: "slice_ultimos 4 (?P @ padStart 4 CHR ''0'' (String_nat ?m))
             = padStart 4 CHR ''0'' (String_nat ?m)"
    by (simp add: slice_ultimos_def longitud_cuatro[OF ks(2)[OF m]])
  show ?thesis
    by (simp add: generarNumeroFactura_def per u s parseInt_cuatro[OF ks(2)[OF m]]
          String_num_def Let_def)
qed

subsection \<open>After 9999\<close>

lemma prefijo_2024_11: "prefijo_periodo 2024 11 = ''202411''"
  by (simp add: prefijo_periodo_def String_nat.simps padStart_def digito_def)

lemma secuencia_10000: "String_num (Some 10000) = ''10000''"
  by (simp add: String_num_def String_nat.simps digito_def)

lemma secuencial_9999: "parseInt (slice_ultimos 4 ''2024119999'') = Some 9999"
  by (simp add: parseInt_def slice_ultimos_def es_digito_def valor_digito_def)

text \<open>
  C7. The generated number is the year, the month in two digits and the sequence in at
  least four, where the sequence is the greatest existing number of the period plus
  one. The code misses this once a month has ten thousand invoices: with the numbers
  2024119999 and 20241110000 in the period, the greatest number is 20241110000 and the
  next sequence would be 10001; the query orders the numbers as strings, takes
  2024119999 for the last one, and the generated number is 20241110000 once more.
\<close>

theorem invoice_number_overflow:
  "map numero_factura (Facturas tienda_9999) = [''2024119999'', ''20241110000'']
   \<and> generarNumeroFactura tienda_9999 2024 11 = ''20241110000''"
proof -
  have f: "map numero_factura (Facturas tienda_9999) = [''2024119999'', ''20241110000'']"
    by (simp add: tienda_9999_def)
  show ?thesis
    by (simp add: f generarNumeroFactura_def prefijo_2024_11 como_prefijo_def
          secuencial_9999 secuencia_10000 padStart_def Let_def)
qed

section \<open>The checkout of the controller\<close>

lemma tienda_9999_venta:
  "procesarVentaDesdeCarrito tienda_9999 7 = (tienda_9999_vendida, Inr 3)"
  by code_simp

lemma tienda_9999_numero:
  "generarNumeroFactura tienda_9999_vendida 2024 11 = ''20241110000''"
  by (simp add: tienda_9999_vendida_def tienda_9999_def generarNumeroFactura_def
        prefijo_2024_11 como_prefijo_def secuencial_9999 secuencia_10000 padStart_def Let_def)

lemma tienda_9999_seleccion:
  "seleccionar_venta_factura tienda_9999_vendida 3 =
     [(\<lparr>id_venta = 3, v_id_usuario = 7, total_venta = 30000, v_estado_venta = COMPLETADA\<rparr>,
       None)]"
  by code_simp

lemma tienda_9999_duplicada:
  "insertar_factura 3 ''20241110000'' 30000 tienda_9999_vendida = Inl EntradaDuplicada"
  by code_simp

lemma tienda_9999_factura:
  "generarFactura tienda_9999_vendida 3 2024 11 = (tienda_9999_vendida, Inl EntradaDuplicada)"
  by (simp add: generarFactura_def transaccion_def generarFactura_cuerpo_def
        tienda_9999_seleccion tienda_9999_numero tienda_9999_duplicada tiene_factura_def)

lemma tienda_8_falla:
  "snd (procesarVentaDesdeCarrito tienda 8) = Inl (StockInsuficiente ''Mesa'' 5 6)"
  by code_simp

text \<open>
  C1, as the code has it. The checkout of the controller runs two atomic units one after
  the other. If the first (cart read, availability check, sale and sale lines, stock
  decrement, cart clear) fails, the store is the store before and the cart is untouched.
  If the first commits and the invoice issuance fails, the store is the one the first
  unit committed: the sale, its lines, the stock decrement and the emptied cart stay,
  and only the invoice is missing. If both succeed, the store is that of the second.
\<close>

theorem checkout_two_units:
  "(\<forall>e. snd (procesarVentaDesdeCarrito d idUsuario) = Inl e \<longrightarrow>
        procesarCompra d idUsuario anio mes = (d, Inl e))
   \<and> (\<forall>d1 idVenta e.
        procesarVentaDesdeCarrito d idUsuario = (d1, Inr idVenta)
        \<and> snd (generarFactura d1 idVenta anio mes) = Inl e \<longrightarrow>
        procesarCompra d idUsuario anio mes = (d1, Inl e))
   \<and> (\<forall>d1 idVenta d2 idFactura.
        procesarVentaDesdeCarrito d idUsuario = (d1, Inr idVenta)
        \<and> generarFactura d1 idVenta anio mes = (d2, Inr idFactura) \<longrightarrow>
        procesarCompra d idUsuario anio mes = (d2, Inr (idVenta, idFactura)))"
proof (intro conjI allI impI)
  fix e
  assume a: "snd (procesarVentaDesdeCarrito d idUsuario) = Inl e"
  obtain d1 where "procesarVentaDesdeCarrito d idUsuario = (d1, Inl e)"
    using a by (metis prod.collapse)
  moreover from this have "d1 = d" by (rule procesarVenta_fallo)
  ultimately show "procesarCompra d idUsuario anio mes = (d, Inl e)"
    by (simp add: procesarCompra_def)
next
  fix d1 idVenta e
  assume a: "procesarVentaDesdeCarrito d idUsuario = (d1, Inr idVenta)
        \<and> snd (generarFactura d1 idVenta anio mes) = Inl e"
  then obtain d2 where g: "generarFactura d1 idVenta anio mes = (d2, Inl e)"
    by (metis prod.collapse)
  then have "d2 = d1"
    by (auto simp: generarFactura_def transaccion_def split: sum.splits)
  with a g show "procesarCompra d idUsuario anio mes = (d1, Inl e)"
    by (simp add: procesarCompra_def)
next
  fix d1 idVenta d2 idFactura
  assume "procesarVentaDesdeCarrito d idUsuario = (d1, Inr idVenta)
        \<and> generarFactura d1 idVenta anio mes = (d2, Inr idFactura)"
  then show "procesarCompra d idUsuario anio mes = (d2, Inr (idVenta, idFactura))"
    by (simp add: procesarCompra_def)
qed

theorem checkout_two_units_witness:
  "procesarCompra tienda 8 2024 11 = (tienda, Inl (StockInsuficiente ''Mesa'' 5 6))
   \<and> procesarVentaDesdeCarrito tienda_9999 7 = (tienda_9999_vendida, Inr 3)
   \<and> procesarCompra tienda_9999 7 2024 11 = (tienda_9999_vendida, Inl EntradaDuplicada)
   \<and> procesarVentaDesdeCarrito tienda 7 = (tienda_sin_factura, Inr 1)
   \<and> procesarCompra tienda 7 2024 11 = (tienda_vendida, Inr (1, 1))"
proof -
  have g: "snd (generarFactura tienda_9999_vendida 3 2024 11) = Inl EntradaDuplicada"
    by (simp add: tienda_9999_factura)
  note a = checkout_two_units[of tienda 8 2024 11, THEN conjunct1, THEN spec, THEN mp,
      OF tienda_8_falla]
  note b = checkout_two_units[of tienda_9999 7 2024 11, THEN conjunct2, THEN conjunct1,
      THEN spec, THEN spec, THEN spec, THEN mp, OF conjI[OF tienda_9999_venta g]]
  note c = checkout_two_units[of tienda 7 2024 11, THEN conjunct2, THEN conjunct2,
      THEN spec, THEN spec, THEN spec, THEN spec, THEN mp,
      OF conjI[OF tienda_sin_factura_alcanzable tienda_vendida_facturada]]
  from a tienda_9999_venta b tienda_sin_factura_alcanzable c show ?thesis by (intro conjI)
qed

text \<open>
  C1, as the specification states it, fails: in the shop with the invoice numbers
  2024119999 and 20241110000, the purchase of user 7 ends with the duplicate-key error of
  the invoice insert, and yet the cart of user 7 is empty, sale 3 exists and the stock
  of the table went from 5 to 3.
\<close>

theorem checkout_atomic_counterexample:
  "procesarCompra tienda_9999 7 2024 11 = (tienda_9999_vendida, Inl EntradaDuplicada)
   \<and> map pc_id_carrito (Productos_Carrito tienda_9999) = [1, 2, 2, 3]
   \<and> map pc_id_carrito (Productos_Carrito tienda_9999_vendida) = [2, 2, 3]
   \<and> map id_venta (Ventas tienda_9999) = [1, 2]
   \<and> map id_venta (Ventas tienda_9999_vendida) = [1, 2, 3]
   \<and> existencias tienda_9999 = [(1, 5), (2, 1)]
   \<and> existencias tienda_9999_vendida = [(1, 3), (2, 1)]"
proof -
  have "procesarCompra tienda_9999 7 2024 11 = (tienda_9999_vendida, Inl EntradaDuplicada)"
    by (simp add: procesarCompra_def tienda_9999_venta tienda_9999_factura)
  moreover have "map pc_id_carrito (Productos_Carrito tienda_9999) = [1, 2, 2, 3]"
    "map pc_id_carrito (Productos_Carrito tienda_9999_vendida) = [2, 2, 3]"
    "map id_venta (Ventas tienda_9999) = [1, 2]"
    "map id_venta (Ventas tienda_9999_vendida) = [1, 2, 3]"
    "existencias tienda_9999 = [(1, 5), (2, 1)]"
    "existencias tienda_9999_vendida = [(1, 3), (2, 1)]"
    by code_simp+
  ultimately show ?thesis by (intro conjI)
qed

section \<open>Concurrent issuance\<close>

text \<open>Run without another request in between, the two steps are \<open>generarFactura\<close>.\<close>

lemma paso_factura_secuencial:
  "(case paso_factura idVenta anio mes d Inicio of
      (d1, p) \<Rightarrow> paso_factura idVenta anio mes d1 p) =
   (case generarFactura d idVenta anio mes of (d', r) \<Rightarrow> (d', Terminada r))"
proof (cases "seleccionar_venta_factura d idVenta")
  case Nil
  then show ?thesis
    by (simp add: generarFactura_def transaccion_def generarFactura_cuerpo_def)
next
  case (Cons vx resto)
  obtain v x where vx: "vx = (v, x)" by (cases vx)
  show ?thesis
  proof (cases "tiene_factura x")
    case True
    with Cons vx show ?thesis
      by (simp add: generarFactura_def transaccion_def generarFactura_cuerpo_def)
  next
    case False
    with Cons vx show ?thesis
      by (cases "insertar_factura idVenta (generarNumeroFactura d anio mes) (total_venta v) d")
         (auto simp: generarFactura_def transaccion_def generarFactura_cuerpo_def)
  qed
qed

text \<open>Two requests that both pass the guard and read one after the other, before
  either writes, hold the same number.\<close>

lemma lecturas_iguales:
  assumes "seleccionar_venta_factura d idVenta1 = (v1, x1) # r1" "\<not> tiene_factura x1"
    and "seleccionar_venta_factura d idVenta2 = (v2, x2) # r2" "\<not> tiene_factura x2"
  shows "ejecutar idVenta1 idVenta2 anio mes [True, False] (d, Inicio, Inicio) =
           (d, Numerada (generarNumeroFactura d anio mes) (total_venta v1),
               Numerada (generarNumeroFactura d anio mes) (total_venta v2))"
  using assms by simp

lemma tienda_dos_ventas_alcanzable:
  "procesarVentaDesdeCarrito tienda_sin_factura 9 = (tienda_dos_ventas, Inr 2)"
  by code_simp

lemma tienda_dos_ventas_wf: "wf_db tienda_dos_ventas"
  by code_simp

text \<open>
  C4. Two issuances of the same month that run at the same time never receive the same
  number. The code misses this: sales 1 and 2 are completed and have no invoice, and
  when both requests read before either writes, both hold the number 2024110001; the
  first insert commits invoice 1 and the second fails on the unique key. One after the
  other, the requests get 2024110001 and 2024110002.
\<close>

theorem concurrent_issuance_same_number:
  "ejecutar 1 2 2024 11 [True, False] (tienda_dos_ventas, Inicio, Inicio) =
       (tienda_dos_ventas, Numerada ''2024110001'' 30000, Numerada ''2024110001'' 4050)
   \<and> snd (ejecutar 1 2 2024 11 [True, False, True, False] (tienda_dos_ventas, Inicio, Inicio)) =
       (Terminada (Inr 1), Terminada (Inl EntradaDuplicada))
   \<and> map numero_factura
       (Facturas (fst (ejecutar 1 2 2024 11 [True, True, False, False]
          (tienda_dos_ventas, Inicio, Inicio)))) = [''2024110001'', ''2024110002'']"
  by code_simp

end
